theory Spec2Isabelle
  imports Complex_Main "HOL-Library.Log_Nat"
begin

section \<open>Data model (src/models.go)\<close>

text \<open>
  A finite \<open>float64\<close> is the rational number it denotes; the infinities and NaN are
  outside the model.  A \<open>time.Time\<close> is the instant it denotes, in nanoseconds since Go's
  zero time (January 1, year 1, 00:00:00 UTC), so that \<open>IsZero\<close> is equality with 0.
  Go's \<open>int\<close> is \<open>int\<close>; every integer the code computes stays far below 2^63.
\<close>

type_synonym float64 = rat
type_synonym Time = int

text \<open>
  Rounding to \<open>float64\<close>, as IEEE 754 binary64 does it: to the nearest number with a
  53-bit significand, a tie going to the even significand.  \<open>ilog2 a\<close> is the binary
  exponent of a positive \<open>a\<close>, the integer \<open>e\<close> with \<open>2^e \<le> a < 2^(e+1)\<close>; below the
  exponent -1022 the spacing stays that of the subnormal numbers.  A result beyond the
  largest \<open>float64\<close> is an infinity in Go and is outside the model.
\<close>

definition ilog2 :: "rat \<Rightarrow> int" where
  "ilog2 a =
    (if 1 \<le> a then int (floorlog 2 (nat \<lfloor>a\<rfloor>)) - 1
     else - int (floorlog 2 (nat (\<lceil>1 / a\<rceil> - 1))))"

definition round_half_even :: "rat \<Rightarrow> int" where
  "round_half_even n =
    (let f = \<lfloor>n\<rfloor>; d = n - of_int f
     in if d < 1 / 2 then f else if 1 / 2 < d then f + 1 else if even f then f else f + 1)"

definition round64 :: "rat \<Rightarrow> float64" where
  "round64 x =
    (if x = 0 then 0
     else (let e = max (ilog2 \<bar>x\<bar>) (- 1022); q = 2 powi (e - 52)
           in of_int (round_half_even (x / q)) * q))"

text \<open>The product of two \<open>float64\<close> numbers in Go: the exact product, rounded.\<close>

definition float64_mul :: "float64 \<Rightarrow> float64 \<Rightarrow> float64" where
  "float64_mul x y = round64 (x * y)"

record Market =
  ID :: string
  ConditionID :: string
  Question :: string
  Description :: string
  Outcomes :: "string list"
  OutcomeTokens :: "string list"
  EndDate :: Time
  Volume :: string
  Liquidity :: string
  Active :: bool

record GammaMarket =
  Gamma_ID :: string
  Gamma_ConditionID :: string
  Gamma_Question :: string
  Gamma_Description :: string
  Gamma_Outcomes :: string
  Gamma_OutcomePrices :: string
  Gamma_EndDateISO :: string
  Gamma_Volume :: string
  Gamma_Liquidity :: string
  Gamma_Active :: bool
  Gamma_Closed :: bool

record GammaEvent =
  Event_ID :: string
  Event_Markets :: "GammaMarket list"

record OutcomeStats =
  Outcome :: string
  OutcomeIndex :: int
  UserCount :: int
  Percentage :: float64
  Price :: string

record MarketStats =
  MarketID :: string
  Stats_Question :: string
  TotalUsers :: int
  OutcomeStats :: "OutcomeStats list"
  PopularOutcome :: string
  PopularPct :: float64

text \<open>
  An \<open>error\<close> value is either one handed back by a library or transport call, or one
  built by \<open>fmt.Errorf("...: %w", err)\<close> around another; \<open>Panic\<close> is a run-time panic.
\<close>

datatype error = Failure string | Wrapped string error | Panic string

section \<open>The ledger client (src/subgraph.go)\<close>

record PositionData =
  Pos_ID :: string
  User_ID :: string
  Pos_Outcome :: string
  Market_ID :: string
  QuantityBought :: string
  QuantitySold :: string

text \<open>The variables of the positions query: \<open>marketId\<close>, \<open>first\<close> and \<open>skip\<close>.\<close>

record Variables =
  marketId :: string
  first :: int
  skip :: int

type_synonym RawMessage = string

text \<open>
  The receiver \<open>c\<close> of the methods below.  \<open>Query\<close> is the answer of the GraphQL endpoint
  to the positions query with the given variables (the HTTP round trip of \<open>c.Query\<close>);
  \<open>Unmarshal_positions\<close> is \<open>json.Unmarshal\<close> into the \<open>positions\<close> result struct; and
  \<open>Sscanf_f\<close> is \<open>fmt.Sscanf(s, "%f", &v)\<close>: \<open>Some x\<close> when it stores \<open>x\<close> in \<open>v\<close>, \<open>None\<close>
  when it fails and leaves \<open>v\<close> untouched.  All three are library or network behaviour
  and are left arbitrary.
\<close>

record SubgraphClient =
  Query :: "Variables \<Rightarrow> error + RawMessage"
  Unmarshal_positions :: "RawMessage \<Rightarrow> error + PositionData list"
  Sscanf_f :: "string \<Rightarrow> float64 option"

text \<open>\<open>fmt.Sprint\<close> of an \<open>int\<close>: its decimal rendering.\<close>

definition digit_char :: "nat \<Rightarrow> char" where
  "digit_char d = ''0123456789'' ! d"

function Sprint_nat :: "nat \<Rightarrow> string" where
  "Sprint_nat n = (if n < 10 then [digit_char n] else Sprint_nat (n div 10) @ [digit_char (n mod 10)])"
  by pat_completeness auto
termination
  by (relation "measure (\<lambda>n. n)") auto

definition Sprint :: "int \<Rightarrow> string" where
  "Sprint i = (if i < 0 then CHR ''-'' # Sprint_nat (nat (- i)) else Sprint_nat (nat i))"

definition limit :: int where
  "limit = 1000"

text \<open>
  One iteration's request: the query with the current variables, then the decoding of
  its payload, each failure wrapped as \<open>GetMarketPositions\<close> wraps it.
\<close>

definition page :: "SubgraphClient \<Rightarrow> Variables \<Rightarrow> error + PositionData list" where
  "page c variables =
    (case Query c variables of
       Inl err \<Rightarrow>
         Inl (Wrapped (''failed to query positions (skip='' @ Sprint (skip variables) @ '')'') err)
     | Inr data \<Rightarrow>
        (case Unmarshal_positions c data of
           Inl err \<Rightarrow> Inl (Wrapped ''failed to parse positions'' err)
         | Inr positions \<Rightarrow> Inr positions))"

text \<open>
  The loop of \<open>GetMarketPositions\<close>, from the state \<open>(skip, allPositions)\<close>.  Next to the
  function's result it returns the variables of every request it issued, in order: a
  ghost value that the Go code does not compute.
\<close>

function GetMarketPositions_loop ::
  "SubgraphClient \<Rightarrow> string \<Rightarrow> int \<Rightarrow> PositionData list \<Rightarrow> (error + PositionData list) \<times> Variables list"
where
  "GetMarketPositions_loop c marketID skp allPositions =
    (let variables = \<lparr>marketId = marketID, first = limit, skip = skp\<rparr> in
     case page c variables of
       Inl err \<Rightarrow> (Inl err, [variables])
     | Inr positions \<Rightarrow>
        (let allPositions' = allPositions @ positions in
         if int (length positions) < limit then (Inr allPositions', [variables])
         else if skp + limit > 10000 then (Inr allPositions', [variables])
         else (case GetMarketPositions_loop c marketID (skp + limit) allPositions' of
                 (r, reqs) \<Rightarrow> (r, variables # reqs))))"
  by pat_completeness auto
termination
  by (relation "measure (\<lambda>(c, marketID, skp, allPositions). nat (10000 - skp))")
     (auto simp: limit_def)

definition GetMarketPositions_run ::
  "SubgraphClient \<Rightarrow> string \<Rightarrow> (error + PositionData list) \<times> Variables list" where
  "GetMarketPositions_run c marketID = GetMarketPositions_loop c marketID 0 []"

definition GetMarketPositions :: "SubgraphClient \<Rightarrow> string \<Rightarrow> error + PositionData list" where
  "GetMarketPositions c marketID = fst (GetMarketPositions_run c marketID)"


subsection \<open>ComputeMarketStats\<close>

text \<open>
  The grouping loop.  A Go \<open>map[string]bool\<close> whose stored values are all \<open>true\<close> is the
  set of its keys, and \<open>len\<close> of it is the cardinality; \<open>outcomeUsers\<close> is a map from
  outcome labels to such sets.  One iteration first creates the set of the position's
  outcome when the map has none, then adds the user to it and to \<open>totalUniqueUsers\<close>.
\<close>

definition addPosition ::
  "(string \<rightharpoonup> string set) \<times> string set \<Rightarrow> PositionData \<Rightarrow> (string \<rightharpoonup> string set) \<times> string set"
where
  "addPosition st pos =
    (case st of (outcomeUsers, totalUniqueUsers) \<Rightarrow>
      (let outcome = Pos_Outcome pos;
           user = User_ID pos;
           outcomeUsers = (case outcomeUsers outcome of
                             None \<Rightarrow> outcomeUsers(outcome \<mapsto> {})
                           | Some users \<Rightarrow> outcomeUsers);
           outcomeUsers = (case outcomeUsers outcome of
                             None \<Rightarrow> outcomeUsers
                           | Some users \<Rightarrow> outcomeUsers(outcome \<mapsto> insert user users))
       in (outcomeUsers, insert user totalUniqueUsers)))"

definition groupPositions :: "PositionData list \<Rightarrow> (string \<rightharpoonup> string set) \<times> string set" where
  "groupPositions positions = foldl addPosition (Map.empty, {}) positions"

text \<open>
  The loop over \<open>market.Outcomes\<close> in ledger mode, from index \<open>i\<close>, on the state
  \<open>(stats.OutcomeStats, maxPct, popularOutcome)\<close>.  The comparison is on the percentage
  that is reported, so its rounding cannot change which outcome is selected; the
  quotient and the product are kept exact here.
\<close>

fun ledgerLoop ::
  "(string \<rightharpoonup> string set) \<Rightarrow> int \<Rightarrow> string list \<Rightarrow> nat \<Rightarrow> string list \<Rightarrow>
   OutcomeStats list \<times> float64 \<times> string \<Rightarrow> OutcomeStats list \<times> float64 \<times> string"
where
  "ledgerLoop outcomeUsers totalUsers tokens i [] st = st"
| "ledgerLoop outcomeUsers totalUsers tokens i (outcomeName # rest) (stats, maxPct, popularOutcome) =
    (let outcomeKey = Sprint (int i);
         userCount = (case outcomeUsers outcomeKey of None \<Rightarrow> 0 | Some users \<Rightarrow> int (card users));
         pct = (if totalUsers > 0 then of_int userCount / of_int totalUsers * 100 else 0);
         price = (if i < length tokens then tokens ! i else []);
         stats' = stats @ [\<lparr>Outcome = outcomeName, OutcomeIndex = int i, UserCount = userCount,
                             Percentage = pct, Price = price\<rparr>]
     in ledgerLoop outcomeUsers totalUsers tokens (Suc i) rest
          (if pct > maxPct then (stats', pct, outcomeName) else (stats', maxPct, popularOutcome)))"

text \<open>
  The loop of \<open>computeStatsFromPrices\<close>, on the state
  \<open>(stats.OutcomeStats, maxPrice, popularOutcome)\<close>.  The percentage is the rounded product
  \<open>priceFloat * 100\<close>; the comparison is on the parsed prices.
\<close>

fun pricesLoop ::
  "SubgraphClient \<Rightarrow> string list \<Rightarrow> nat \<Rightarrow> string list \<Rightarrow>
   OutcomeStats list \<times> float64 \<times> string \<Rightarrow> OutcomeStats list \<times> float64 \<times> string"
where
  "pricesLoop c tokens i [] st = st"
| "pricesLoop c tokens i (outcomeName # rest) (stats, maxPrice, popularOutcome) =
    (let price = (if i < length tokens then tokens ! i else ''0'');
         priceFloat = (case Sscanf_f c price of None \<Rightarrow> 0 | Some x \<Rightarrow> x);
         pct = float64_mul priceFloat 100;
         stats' = stats @ [\<lparr>Outcome = outcomeName, OutcomeIndex = int i, UserCount = 0,
                             Percentage = pct, Price = price\<rparr>]
     in pricesLoop c tokens (Suc i) rest
          (if priceFloat > maxPrice then (stats', priceFloat, outcomeName)
           else (stats', maxPrice, popularOutcome)))"

definition computeStatsFromPrices :: "SubgraphClient \<Rightarrow> Market \<Rightarrow> MarketStats" where
  "computeStatsFromPrices c market =
    (case pricesLoop c (OutcomeTokens market) 0 (Outcomes market) ([], 0, []) of
       (stats, maxPrice, popularOutcome) \<Rightarrow>
         \<lparr>MarketID = ID market, Stats_Question = Question market, TotalUsers = 0,
          OutcomeStats = stats, PopularOutcome = popularOutcome,
          PopularPct = float64_mul maxPrice 100\<rparr>)"

text \<open>The ledger-mode part of \<open>ComputeMarketStats\<close>, after the grouping loop.\<close>

definition statsFromLedger :: "Market \<Rightarrow> (string \<rightharpoonup> string set) \<Rightarrow> int \<Rightarrow> MarketStats" where
  "statsFromLedger market outcomeUsers totalUsers =
    (case ledgerLoop outcomeUsers totalUsers (OutcomeTokens market) 0 (Outcomes market) ([], 0, []) of
       (stats, maxPct, popularOutcome) \<Rightarrow>
         \<lparr>MarketID = ID market, Stats_Question = Question market, TotalUsers = totalUsers,
          OutcomeStats = stats, PopularOutcome = popularOutcome, PopularPct = maxPct\<rparr>)"

text \<open>The pair returned is Go's \<open>(*MarketStats, error)\<close>; \<open>None\<close> is the \<open>nil\<close> error.\<close>

definition ComputeMarketStats :: "SubgraphClient \<Rightarrow> Market \<Rightarrow> MarketStats \<times> error option" where
  "ComputeMarketStats c market =
    (case GetMarketPositions c (ConditionID market) of
       Inl err \<Rightarrow> (computeStatsFromPrices c market, None)
     | Inr positions \<Rightarrow>
        (case groupPositions positions of (outcomeUsers, totalUniqueUsers) \<Rightarrow>
          (let totalUsers = int (card totalUniqueUsers) in
           if totalUsers = 0 then (computeStatsFromPrices c market, None)
           else (statsFromLedger market outcomeUsers totalUsers, None))))"

text \<open>
  The grouping in the words of the specification: the distinct users with a position on
  a given outcome label, and the distinct users over all positions.
\<close>

definition usersOfOutcome :: "PositionData list \<Rightarrow> string \<Rightarrow> string set" where
  "usersOfOutcome positions label =
     User_ID ` set (filter (\<lambda>pos. Pos_Outcome pos = label) positions)"

definition allUsers :: "PositionData list \<Rightarrow> string set" where
  "allUsers positions = User_ID ` set positions"

section \<open>The catalog client (src/models.go, the Gamma API client)\<close>

text \<open>
  The receiver \<open>c\<close> of the catalog methods.  \<open>http_markets limit offset\<close>, \<open>http_market id\<close>
  and \<open>http_search q\<close> stand for the HTTP GET of the respective endpoint, the status check,
  the reading of the body and its \<open>json.Unmarshal\<close>, with the error the method returns
  when any of these fails.  \<open>Unmarshal_strings\<close> is \<open>json.Unmarshal\<close> into a \<open>[]string\<close>,
  \<open>time_Parse layout value\<close> is \<open>time.Parse\<close>, and \<open>AddDate_days t days\<close> is
  \<open>t.AddDate(0, 0, days)\<close> for a \<open>t\<close> read from \<open>time.Now()\<close>: the instant at which the
  clock of the server's location shows the same time of day \<open>days\<close> calendar days
  later.  All are library or network behaviour and are left arbitrary.
\<close>

record GammaClient =
  http_markets :: "int \<Rightarrow> int \<Rightarrow> error + GammaMarket list"
  http_market :: "string \<Rightarrow> error + GammaMarket"
  http_search :: "string \<Rightarrow> error + GammaEvent list"
  Unmarshal_strings :: "string \<Rightarrow> error + string list"
  time_Parse :: "string \<Rightarrow> string \<Rightarrow> error + Time"
  AddDate_days :: "Time \<Rightarrow> int \<Rightarrow> Time"

definition RFC3339 :: string where
  "RFC3339 = ''2006-01-02T15:04:05Z07:00''"

definition formats :: "string list" where
  "formats = [RFC3339, ''2006-01-02'', ''2006-01-02T15:04:05'']"

text \<open>The loop over \<open>formats\<close>: the first layout that parses sets the end date and breaks.\<close>

fun tryFormats :: "GammaClient \<Rightarrow> string list \<Rightarrow> string \<Rightarrow> Market \<Rightarrow> Market" where
  "tryFormats c [] value market = market"
| "tryFormats c (format # rest) value market =
    (case time_Parse c format value of
       Inr t \<Rightarrow> market\<lparr>EndDate := t\<rparr>
     | Inl err \<Rightarrow> tryFormats c rest value market)"

definition convertGammaMarket :: "GammaClient \<Rightarrow> GammaMarket \<Rightarrow> Market" where
  "convertGammaMarket c gm =
    (let market = \<lparr>ID = Gamma_ID gm, ConditionID = Gamma_ConditionID gm,
                   Question = Gamma_Question gm, Description = Gamma_Description gm,
                   Outcomes = [], OutcomeTokens = [], EndDate = 0,
                   Volume = Gamma_Volume gm, Liquidity = Gamma_Liquidity gm,
                   Active = (Gamma_Active gm \<and> \<not> Gamma_Closed gm)\<rparr>;
         market = (if Gamma_Outcomes gm \<noteq> [] then
                     (case Unmarshal_strings c (Gamma_Outcomes gm) of
                        Inr outcomes \<Rightarrow> market\<lparr>Outcomes := outcomes\<rparr>
                      | Inl err \<Rightarrow> market)
                   else market);
         market = (if Gamma_OutcomePrices gm \<noteq> [] then
                     (case Unmarshal_strings c (Gamma_OutcomePrices gm) of
                        Inr prices \<Rightarrow> market\<lparr>OutcomeTokens := prices\<rparr>
                      | Inl err \<Rightarrow> market)
                   else market);
         market = (if Gamma_EndDateISO gm \<noteq> [] then tryFormats c formats (Gamma_EndDateISO gm) market
                   else market)
     in market)"

text \<open>\<open>time.Time\<close> operations on instants, and the \<open>time.Hour\<close> in nanoseconds.\<close>

definition IsZero :: "Time \<Rightarrow> bool" where
  "IsZero t = (t = 0)"

definition Before :: "Time \<Rightarrow> Time \<Rightarrow> bool" where
  "Before t u = (t < u)"

definition Hour :: int where
  "Hour = 3600 * 1000000000"

text \<open>The test that makes the listing and search loops \<open>continue\<close>.\<close>

definition expired :: "GammaClient \<Rightarrow> Time \<Rightarrow> Market \<Rightarrow> bool" where
  "expired c now market =
     (\<not> IsZero (EndDate market) \<and> Before (EndDate market) (AddDate_days c now (- 1)))"

fun FetchMarkets_loop :: "GammaClient \<Rightarrow> Time \<Rightarrow> GammaMarket list \<Rightarrow> Market list \<Rightarrow> Market list" where
  "FetchMarkets_loop c now [] markets = markets"
| "FetchMarkets_loop c now (gm # rest) markets =
    (let market = convertGammaMarket c gm in
     if expired c now market then FetchMarkets_loop c now rest markets
     else FetchMarkets_loop c now rest (markets @ [market]))"

text \<open>\<open>now\<close> is the reading of \<open>time.Now()\<close> in the call.\<close>

definition FetchMarkets :: "GammaClient \<Rightarrow> Time \<Rightarrow> int \<Rightarrow> int \<Rightarrow> error + Market list" where
  "FetchMarkets c now lmt offset =
    (case http_markets c lmt offset of
       Inl err \<Rightarrow> Inl err
     | Inr gammaMarkets \<Rightarrow> Inr (FetchMarkets_loop c now gammaMarkets []))"

definition FetchMarketByID :: "GammaClient \<Rightarrow> string \<Rightarrow> error + Market" where
  "FetchMarketByID c marketID =
    (case http_market c marketID of
       Inl err \<Rightarrow> Inl err
     | Inr gm \<Rightarrow> Inr (convertGammaMarket c gm))"




section \<open>The HTTP handlers (the server, src/unnamed/part_000)\<close>

text \<open>
  \<open>url.Values\<close> maps a key to the list of its values; \<open>Get\<close> is the first value, or the
  empty string when there is none.  \<open>Atoi\<close> is \<open>strconv.Atoi\<close>, left arbitrary.
\<close>

type_synonym Values = "string \<Rightarrow> string list"

definition Get :: "Values \<Rightarrow> string \<Rightarrow> string" where
  "Get vs key = (case vs key of [] \<Rightarrow> [] | v # rest \<Rightarrow> v)"

record Server =
  gammaClient :: GammaClient
  subgraphClient :: SubgraphClient
  Atoi :: "string \<Rightarrow> error + int"

text \<open>The query parameters of \<open>handleGetMarkets\<close>: the pair \<open>(limit, offset)\<close> it computes.\<close>

definition handleGetMarkets_params :: "Server \<Rightarrow> Values \<Rightarrow> int \<times> int" where
  "handleGetMarkets_params s query =
    (let lmt = 50;
         offset = 0;
         l = Get query ''limit'';
         lmt = (if l \<noteq> [] then
                  (case Atoi s l of
                     Inr parsed \<Rightarrow> if parsed > 0 \<and> parsed \<le> 100 then parsed else lmt
                   | Inl err \<Rightarrow> lmt)
                else lmt);
         ov = Get query ''offset'';
         offset = (if ov \<noteq> [] then
                     (case Atoi s ov of
                        Inr parsed \<Rightarrow> if parsed \<ge> 0 then parsed else offset
                      | Inl err \<Rightarrow> offset)
                   else offset)
     in (lmt, offset))"

text \<open>The response: the HTTP status and the \<open>APIResponse\<close>, an error or the data.\<close>

definition handleGetMarkets :: "Server \<Rightarrow> Time \<Rightarrow> Values \<Rightarrow> int \<times> (error + Market list)" where
  "handleGetMarkets s now query =
    (case handleGetMarkets_params s query of (lmt, offset) \<Rightarrow>
      (case FetchMarkets (gammaClient s) now lmt offset of
         Inl err \<Rightarrow> (500, Inl err)
       | Inr markets \<Rightarrow> (200, Inr markets)))"

definition handleGetMarket :: "Server \<Rightarrow> string \<Rightarrow> int \<times> (error + Market)" where
  "handleGetMarket s marketID =
    (case FetchMarketByID (gammaClient s) marketID of
       Inl err \<Rightarrow> (500, Inl err)
     | Inr market \<Rightarrow> (200, Inr market))"

section \<open>Concrete collaborators\<close>

text \<open>
  Instances of the library and network behaviour that the definitions above leave
  arbitrary; the properties below are exercised on them.
\<close>

definition position :: "string \<Rightarrow> string \<Rightarrow> PositionData" where
  "position user outcome =
     \<lparr>Pos_ID = [], User_ID = user, Pos_Outcome = outcome, Market_ID = [],
      QuantityBought = [], QuantitySold = []\<rparr>"


text \<open>A single short page: alice holds both outcomes, bob the first only.\<close>

definition ledgerClient :: SubgraphClient where
  "ledgerClient =
     \<lparr>Query = (\<lambda>v. Inr ''page''),
      Unmarshal_positions =
        (\<lambda>data. Inr [position ''alice'' ''0'', position ''alice'' ''1'', position ''bob'' ''0'']),
      Sscanf_f = (\<lambda>s. None)\<rparr>"

text \<open>
  A scanner for the unsigned decimal literals \<open>digits[.digits]\<close>: \<open>scanDecimal\<close> reads the
  number that the literal denotes and rejects every other string, and \<open>scanFloat\<close> rounds
  that number to the nearest \<open>float64\<close>, which is what \<open>fmt.Sscanf\<close> with \<open>%f\<close> stores for
  such a literal.
\<close>

definition digit_of :: "char \<Rightarrow> nat option" where
  "digit_of ch =
    (if ch = CHR ''0'' then Some 0 else if ch = CHR ''1'' then Some 1
     else if ch = CHR ''2'' then Some 2 else if ch = CHR ''3'' then Some 3
     else if ch = CHR ''4'' then Some 4 else if ch = CHR ''5'' then Some 5
     else if ch = CHR ''6'' then Some 6 else if ch = CHR ''7'' then Some 7
     else if ch = CHR ''8'' then Some 8 else if ch = CHR ''9'' then Some 9
     else None)"

fun digits_value :: "nat \<Rightarrow> string \<Rightarrow> nat option" where
  "digits_value acc [] = Some acc"
| "digits_value acc (ch # rest) =
    (case digit_of ch of None \<Rightarrow> None | Some d \<Rightarrow> digits_value (10 * acc + d) rest)"

definition scanDecimal :: "string \<Rightarrow> float64 option" where
  "scanDecimal s =
    (let ip = takeWhile (\<lambda>ch. ch \<noteq> CHR ''.'') s;
         fp = drop (Suc (length ip)) s
     in if ip = [] then None
        else (case digits_value 0 ip of
                None \<Rightarrow> None
              | Some a \<Rightarrow>
                 (case digits_value 0 fp of
                    None \<Rightarrow> None
                  | Some b \<Rightarrow> Some (of_nat a + of_nat b / 10 ^ length fp))))"

definition scanFloat :: "string \<Rightarrow> float64 option" where
  "scanFloat s = map_option round64 (scanDecimal s)"

text \<open>An upstream whose ledger is down, with the decimal scanner.\<close>

definition priceClient :: SubgraphClient where
  "priceClient =
     \<lparr>Query = (\<lambda>v. Inl (Failure ''connection refused'')),
      Unmarshal_positions = (\<lambda>data. Inr []),
      Sscanf_f = scanFloat\<rparr>"

definition market_of :: "string list \<Rightarrow> string list \<Rightarrow> Market" where
  "market_of outcomes prices =
     \<lparr>ID = ''1'', ConditionID = ''0xc'', Question = ''Q'', Description = [],
      Outcomes = outcomes, OutcomeTokens = prices, EndDate = 0,
      Volume = ''0'', Liquidity = ''0'', Active = True\<rparr>"

text \<open>
  A catalog whose JSON decoder knows two documents and whose date parser knows one date,
  in two layouts, served from a location that keeps UTC, where a calendar day is 24
  hours.  Instants are counted in days of 24 hours since the zero time: day 737424 is
  January 1, 2020, and day 739919 is October 31, 2026.
\<close>

definition quoted :: "string \<Rightarrow> string" where
  "quoted s = CHR 0x22 # s @ [CHR 0x22]"

definition json_Yes_No :: string where
  "json_Yes_No = ''['' @ quoted ''Yes'' @ '','' @ quoted ''No'' @ '']''"

definition json_prices :: string where
  "json_prices = ''['' @ quoted ''0.7'' @ '','' @ quoted ''0.3'' @ '']''"

definition stubUnmarshal :: "string \<Rightarrow> error + string list" where
  "stubUnmarshal s =
     (if s = json_Yes_No then Inr [''Yes'', ''No'']
      else if s = json_prices then Inr [''0.7'', ''0.3'']
      else Inl (Failure ''invalid character''))"

definition t2020 :: Time where
  "t2020 = 737424 * (24 * Hour)"


definition stubParse :: "string \<Rightarrow> string \<Rightarrow> error + Time" where
  "stubParse layout v =
     (if layout = ''2006-01-02'' \<and> v = ''2020-01-01'' then Inr t2020
      else if layout = RFC3339 \<and> v = ''2020-01-01T00:00:00Z'' then Inr t2020
      else Inl (Failure ''cannot parse''))"

definition gamma_of :: "string \<Rightarrow> string \<Rightarrow> string \<Rightarrow> string \<Rightarrow> bool \<Rightarrow> bool \<Rightarrow> GammaMarket" where
  "gamma_of ident outcomes prices endDate isActive isClosed =
     \<lparr>Gamma_ID = ident, Gamma_ConditionID = ''0xc'', Gamma_Question = ''Q'',
      Gamma_Description = [], Gamma_Outcomes = outcomes, Gamma_OutcomePrices = prices,
      Gamma_EndDateISO = endDate, Gamma_Volume = ''10'', Gamma_Liquidity = ''5'',
      Gamma_Active = isActive, Gamma_Closed = isClosed\<rparr>"

text \<open>
  Four records: one open with no end date, one open whose end date does not parse and
  whose outcomes are not JSON, one that ended in 2020 and is flagged both active and
  closed, and one that ended in 2020 and is still flagged open.
\<close>

definition gmOpen :: GammaMarket where
  "gmOpen = gamma_of ''1'' json_Yes_No json_prices [] True False"

definition gmOdd :: GammaMarket where
  "gmOdd = gamma_of ''2'' ''Yes,No'' json_prices ''next week'' True False"

definition gmClosed :: GammaMarket where
  "gmClosed = gamma_of ''3'' json_Yes_No json_prices ''2020-01-01'' True True"

definition gmStale :: GammaMarket where
  "gmStale = gamma_of ''4'' json_Yes_No json_prices ''2020-01-01'' True False"

definition catalogClient :: GammaClient where
  "catalogClient =
     \<lparr>http_markets = (\<lambda>lmt offset. Inr [gmOpen, gmStale, gmOdd]),
      http_market = (\<lambda>marketID. Inr gmStale),
      http_search = (\<lambda>query. Inr [\<lparr>Event_ID = ''e'', Event_Markets = [gmOpen, gmStale, gmOdd]\<rparr>]),
      Unmarshal_strings = stubUnmarshal,
      time_Parse = stubParse,
      AddDate_days = (\<lambda>t days. t + days * (24 * Hour))\<rparr>"





text \<open>
  \<open>strconv.Atoi\<close> on a 64-bit platform: an optional sign, then one or more decimal
  digits, and a value that fits an \<open>int\<close>.
\<close>

definition strconv_Atoi :: "string \<Rightarrow> error + int" where
  "strconv_Atoi s =
    (case (case s of [] \<Rightarrow> (False, [])
           | ch # rest \<Rightarrow> if ch = CHR ''-'' then (True, rest)
                          else if ch = CHR ''+'' then (False, rest) else (False, s)) of
       (neg, ds) \<Rightarrow>
         if ds = [] then Inl (Failure ''invalid syntax'')
         else (case digits_value 0 ds of
                 None \<Rightarrow> Inl (Failure ''invalid syntax'')
               | Some n \<Rightarrow>
                  if neg then (if int n > 2 ^ 63 then Inl (Failure ''value out of range'')
                               else Inr (- int n))
                  else (if int n \<ge> 2 ^ 63 then Inl (Failure ''value out of range'')
                        else Inr (int n))))"

definition server :: Server where
  "server = \<lparr>gammaClient = catalogClient, subgraphClient = priceClient, Atoi = strconv_Atoi\<rparr>"

definition values_of :: "string \<Rightarrow> string \<Rightarrow> Values" where
  "values_of l ov =
     (\<lambda>key. if key = ''limit'' then (if l = [] then [] else [l])
             else if key = ''offset'' then (if ov = [] then [] else [ov])
             else [])"

section \<open>Specification-level descriptions\<close>

text \<open>The entry that ledger mode reports for the outcome at index \<open>i\<close>.\<close>

definition ledgerEntry ::
  "(string \<rightharpoonup> string set) \<Rightarrow> int \<Rightarrow> string list \<Rightarrow> nat \<Rightarrow> string \<Rightarrow> OutcomeStats" where
  "ledgerEntry outcomeUsers totalUsers tokens i outcomeName =
     \<lparr>Outcome = outcomeName, OutcomeIndex = int i,
      UserCount = (case outcomeUsers (Sprint (int i)) of None \<Rightarrow> 0 | Some users \<Rightarrow> int (card users)),
      Percentage =
        (if totalUsers > 0
         then of_int (case outcomeUsers (Sprint (int i)) of None \<Rightarrow> 0 | Some users \<Rightarrow> int (card users))
                / of_int totalUsers * 100
         else 0),
      Price = (if i < length tokens then tokens ! i else [])\<rparr>"

text \<open>The price string and the parsed price that price mode uses at index \<open>i\<close>.\<close>

definition priceAt :: "string list \<Rightarrow> nat \<Rightarrow> string" where
  "priceAt tokens i = (if i < length tokens then tokens ! i else ''0'')"

definition parsedPrice :: "SubgraphClient \<Rightarrow> string \<Rightarrow> float64" where
  "parsedPrice c price = (case Sscanf_f c price of None \<Rightarrow> 0 | Some x \<Rightarrow> x)"

definition priceEntry :: "SubgraphClient \<Rightarrow> string list \<Rightarrow> nat \<Rightarrow> string \<Rightarrow> OutcomeStats" where
  "priceEntry c tokens i outcomeName =
     \<lparr>Outcome = outcomeName, OutcomeIndex = int i, UserCount = 0,
      Percentage = float64_mul (parsedPrice c (priceAt tokens i)) 100,
      Price = priceAt tokens i\<rparr>"

text \<open>
  The popular-outcome rule in the words of the specification: scan the pairs of
  percentage and outcome name in index order, and replace the running maximum only
  when a percentage is strictly greater.
\<close>

fun scanPopular :: "(float64 \<times> string) list \<Rightarrow> float64 \<times> string \<Rightarrow> float64 \<times> string" where
  "scanPopular [] best = best"
| "scanPopular ((pct, name) # rest) (maxPct, popular) =
     scanPopular rest (if pct > maxPct then (pct, name) else (maxPct, popular))"

definition percentages :: "MarketStats \<Rightarrow> (float64 \<times> string) list" where
  "percentages stats = map (\<lambda>st. (Percentage st, Outcome st)) (OutcomeStats stats)"



section \<open>Properties of the ledger fetch\<close>

declare GetMarketPositions_loop.simps [simp del]

lemma loop_failed:
  "page c \<lparr>marketId = m, first = limit, skip = s\<rparr> = Inl e \<Longrightarrow>
   GetMarketPositions_loop c m s a = (Inl e, [\<lparr>marketId = m, first = limit, skip = s\<rparr>])"
  by (subst GetMarketPositions_loop.simps) simp

lemma loop_short:
  "page c \<lparr>marketId = m, first = limit, skip = s\<rparr> = Inr ps \<Longrightarrow> int (length ps) < limit \<Longrightarrow>
   GetMarketPositions_loop c m s a = (Inr (a @ ps), [\<lparr>marketId = m, first = limit, skip = s\<rparr>])"
  by (subst GetMarketPositions_loop.simps) simp
















section \<open>Properties of the rounding\<close>

lemma ilog2_bounds:
  assumes "0 < a"
  shows "2 powi (ilog2 a) \<le> a \<and> a < 2 powi (ilog2 a + 1)"
proof (cases "1 \<le> a")
  case True
  define n where "n = nat \<lfloor>a\<rfloor>"
  define F where "F = floorlog 2 n"
  have n1: "1 \<le> n" using True by (simp add: n_def le_nat_iff le_floor_iff)
  have b: "2 ^ (F - 1) \<le> n" "n < 2 ^ F"
    using floorlog_bounds[of n 2] n1 by (simp_all add: F_def)
  have F1: "1 \<le> F" using b(2) n1 by (cases F) simp_all
  have e: "ilog2 a = int F - 1" using True by (simp add: ilog2_def n_def F_def)
  have fl: "0 \<le> \<lfloor>a\<rfloor>" using True by simp
  have na: "rat_of_nat n \<le> a" "a < rat_of_nat n + 1"
    unfolding n_def of_nat_nat[OF fl] by linarith+
  have "rat_of_nat (2 ^ (F - 1)) \<le> rat_of_nat n" using b(1) by (rule of_nat_mono)
  then have "(2::rat) ^ (F - 1) \<le> rat_of_nat n" by simp
  then have lo: "(2::rat) ^ (F - 1) \<le> a" using na(1) by (rule order_trans)
  have "n + 1 \<le> 2 ^ F" using b(2) by simp
  then have "rat_of_nat (n + 1) \<le> rat_of_nat (2 ^ F)" by (rule of_nat_mono)
  then have r: "rat_of_nat n + 1 \<le> 2 ^ F" by simp
  have hi: "a < (2::rat) ^ F" using na(2) r by (rule less_le_trans)
  have p1: "(2::rat) powi (int F - 1) = 2 ^ (F - 1)"
    using F1 by (simp add: power_int_def nat_diff_distrib')
  have p2: "(2::rat) powi (int F - 1 + 1) = 2 ^ F"
    by (simp add: power_int_def)
  show ?thesis using lo hi by (simp only: e p1 p2)
next
  case False
  then have a1: "a < 1" by simp
  define c where "c = \<lceil>1 / a\<rceil>"
  define m where "m = nat (c - 1)"
  define F where "F = floorlog 2 m"
  have b1: "1 < 1 / a" using assms a1 by (simp add: field_simps)
  have c2: "2 \<le> c" using b1 by (simp add: c_def le_ceiling_iff) 
  have m1: "1 \<le> m" using c2 by (simp add: m_def)
  have b: "2 ^ (F - 1) \<le> m" "m < 2 ^ F"
    using floorlog_bounds[of m 2] m1 by (simp_all add: F_def)
  have F1: "1 \<le> F" using b(2) m1 by (cases F) simp_all
  have e: "ilog2 a = - int F" using False by (simp add: ilog2_def c_def m_def F_def)
  have cm: "rat_of_int c = rat_of_nat m + 1" using c2 by (simp add: m_def)
  have ca: "1 / a \<le> rat_of_int c" "rat_of_int c - 1 < 1 / a"
    by (simp_all add: c_def) linarith
  have "m + 1 \<le> 2 ^ F" using b(2) by simp
  then have "rat_of_nat (m + 1) \<le> rat_of_nat (2 ^ F)" by (rule of_nat_mono)
  then have r: "rat_of_nat m + 1 \<le> 2 ^ F" by simp
  have "1 / a \<le> rat_of_nat m + 1" using ca(1) cm by simp
  then have "1 / a \<le> 2 ^ F" using r by (rule order_trans)
  then have lo: "1 / 2 ^ F \<le> a" using assms by (simp add: field_simps)
  have "rat_of_nat (2 ^ (F - 1)) \<le> rat_of_nat m" using b(1) by (rule of_nat_mono)
  then have q: "(2::rat) ^ (F - 1) \<le> rat_of_nat m" by simp
  have "rat_of_nat m < 1 / a" using ca(2) cm by simp
  with q have "(2::rat) ^ (F - 1) < 1 / a" by (rule le_less_trans)
  then have hi: "a < 1 / 2 ^ (F - 1)" using assms by (simp add: field_simps)
  have p1: "(2::rat) powi (- int F) = 1 / 2 ^ F"
    by (simp add: power_int_def power_one_over inverse_eq_divide)
  have eq: "- int F + 1 = - int (F - 1)" using F1 by simp
  have p2: "(2::rat) powi (- int F + 1) = 1 / 2 ^ (F - 1)"
    using F1 by (simp add: power_int_def power_one_over inverse_eq_divide nat_diff_distrib')
  show ?thesis using lo hi by (simp only: e p1 p2)
qed

lemma ilog2_unique:
  assumes "2 powi e \<le> a" "a < 2 powi (e + 1)"
  shows "ilog2 a = e"
proof -
  have "0 < (2::rat) powi e" by simp
  then have pos: "0 < a" using assms(1) by linarith
  note b = ilog2_bounds[OF pos]
  have "(2::rat) powi (ilog2 a) < 2 powi (e + 1)" using b assms by linarith
  then have 1: "ilog2 a < e + 1"
    by (metis leD not_le_imp_less one_le_numeral power_int_increasing)
  have "(2::rat) powi e < 2 powi (ilog2 a + 1)" using b assms by linarith
  then have 2: "e < ilog2 a + 1"
    by (metis leD not_le_imp_less one_le_numeral power_int_increasing)
  show ?thesis using 1 2 by simp
qed

lemma round_half_even_nearest:
  assumes "\<bar>n - of_int m\<bar> < 1 / 2"
  shows "round_half_even n = m"
proof -
  consider "of_int m \<le> n" | "n < of_int m" by linarith
  then show ?thesis
  proof cases
    case 1
    then have "\<lfloor>n\<rfloor> = m" using assms by (intro floor_unique) (simp_all add: abs_if split: if_splits)
    then show ?thesis using assms 1 by (simp add: round_half_even_def Let_def)
  next
    case 2
    then have f: "\<lfloor>n\<rfloor> = m - 1"
      using assms by (intro floor_unique) (simp_all add: abs_if split: if_splits)
    have "1 / 2 < n - of_int (m - 1)" using assms 2 by (simp add: abs_if split: if_splits)
    then show ?thesis using f by (simp add: round_half_even_def Let_def)
  qed
qed

lemma round64_nearest:
  assumes "2 powi e \<le> \<bar>x\<bar>" "\<bar>x\<bar> < 2 powi (e + 1)" "- 1022 \<le> e"
    "\<bar>x / 2 powi (e - 52) - of_int m\<bar> < 1 / 2"
  shows "round64 x = of_int m * 2 powi (e - 52)"
proof -
  have "0 < (2::rat) powi e" by simp
  then have "0 < \<bar>x\<bar>" using assms(1) by linarith
  then have "x \<noteq> 0" by simp
  moreover have "ilog2 \<bar>x\<bar> = e" using assms(1,2) by (rule ilog2_unique)
  ultimately show ?thesis
    using assms(3) round_half_even_nearest[OF assms(4)] by (simp add: round64_def Let_def max_def)
qed


lemmas powi_eval = power_int_def power_one_over inverse_eq_divide

lemma round64_7_10: "round64 (7 / 10) = 3152519739159347 / 4503599627370496"
proof -
  have "round64 (7 / 10) = of_int 6305039478318694 * 2 powi (- 1 - 52)"
    by (rule round64_nearest) (simp_all add: powi_eval)
  then show ?thesis by (simp add: powi_eval)
qed

lemma round64_7_10_next:
  "round64 (7000000000000001 / 10000000000000000) = 6305039478318695 / 9007199254740992"
proof -
  have "round64 (7000000000000001 / 10000000000000000) = of_int 6305039478318695 * 2 powi (- 1 - 52)"
    by (rule round64_nearest) (simp_all add: powi_eval)
  then show ?thesis by (simp add: powi_eval)
qed

lemma round64_3_10: "round64 (3 / 10) = 5404319552844595 / 18014398509481984"
proof -
  have "round64 (3 / 10) = of_int 5404319552844595 * 2 powi (- 2 - 52)"
    by (rule round64_nearest) (simp_all add: powi_eval)
  then show ?thesis by (simp add: powi_eval)
qed

lemma round64_70: "round64 70 = 70"
proof -
  have "round64 70 = of_int 4925812092436480 * 2 powi (6 - 52)"
    by (rule round64_nearest) (simp_all add: powi_eval)
  then show ?thesis by (simp add: powi_eval)
qed

lemma round64_30: "round64 30 = 30"
proof -
  have "round64 30 = of_int 8444249301319680 * 2 powi (4 - 52)"
    by (rule round64_nearest) (simp_all add: powi_eval)
  then show ?thesis by (simp add: powi_eval)
qed

lemma round64_0: "round64 0 = 0"
  by (simp add: round64_def)

lemma float64_mul_0: "float64_mul 0 100 = 0"
  by (simp add: float64_mul_def round64_0)

lemma float64_mul_exact: "float64_mul (7 / 10) 100 = 70" "float64_mul (3 / 10) 100 = 30"
  by (simp_all add: float64_mul_def round64_70 round64_30)

lemma float64_mul_7_10: "float64_mul (3152519739159347 / 4503599627370496) 100 = 70"
proof -
  have "round64 (3152519739159347 / 4503599627370496 * 100) = of_int 4925812092436480 * 2 powi (6 - 52)"
    by (rule round64_nearest) (simp_all add: powi_eval)
  then show ?thesis by (simp add: powi_eval float64_mul_def)
qed

lemma float64_mul_7_10_next: "float64_mul (6305039478318695 / 9007199254740992) 100 = 70"
proof -
  have "round64 (6305039478318695 / 9007199254740992 * 100) = of_int 4925812092436480 * 2 powi (6 - 52)"
    by (rule round64_nearest) (simp_all add: powi_eval)
  then show ?thesis by (simp add: powi_eval float64_mul_def)
qed

lemma float64_mul_3_10: "float64_mul (5404319552844595 / 18014398509481984) 100 = 30"
proof -
  have "round64 (5404319552844595 / 18014398509481984 * 100) = of_int 8444249301319680 * 2 powi (4 - 52)"
    by (rule round64_nearest) (simp_all add: powi_eval)
  then show ?thesis by (simp add: powi_eval float64_mul_def)
qed

section \<open>Properties of the statistics\<close>

lemma foldl_addPosition_snd:
  "snd (foldl addPosition st ps) = snd st \<union> allUsers ps"
  by (induction ps arbitrary: st) (auto simp: addPosition_def allUsers_def Let_def split: prod.splits)

lemma foldl_addPosition_fst:
  "fst (foldl addPosition st ps) label =
     (if fst st label = None \<and> usersOfOutcome ps label = {} then None
      else Some ((case fst st label of None \<Rightarrow> {} | Some us \<Rightarrow> us) \<union> usersOfOutcome ps label))"
proof (induction ps arbitrary: st)
  case Nil
  then show ?case by (simp add: usersOfOutcome_def split: option.splits)
next
  case (Cons p ps)
  obtain ou tot where st: "st = (ou, tot)" by (cases st)
  show ?case
    unfolding foldl_Cons Cons.IH
    by (auto simp: st addPosition_def usersOfOutcome_def Let_def filter_empty_conv split: option.splits)
qed

lemma groupPositions_eq:
  "groupPositions ps =
     ((\<lambda>label. if usersOfOutcome ps label = {} then None else Some (usersOfOutcome ps label)),
      allUsers ps)"
proof -
  have "fst (groupPositions ps) =
      (\<lambda>label. if usersOfOutcome ps label = {} then None else Some (usersOfOutcome ps label))"
    by (rule ext) (simp add: groupPositions_def foldl_addPosition_fst)
  moreover have "snd (groupPositions ps) = allUsers ps"
    by (simp add: groupPositions_def foldl_addPosition_snd)
  ultimately show ?thesis by (simp add: prod_eq_iff)
qed

lemma usersOfOutcome_subset: "usersOfOutcome ps label \<subseteq> allUsers ps"
  by (auto simp: usersOfOutcome_def allUsers_def)

lemma finite_allUsers: "finite (allUsers ps)"
  by (simp add: allUsers_def)

lemma map_upt_shift: "map f [0..<Suc n] = f 0 # map (\<lambda>k. f (Suc k)) [0..<n]"
  by (simp add: upt_conv_Cons map_Suc_upt[symmetric] del: upt_Suc)

lemma ledgerLoop_step:
  "ledgerLoop ou tu toks i (name # names) (acc, m, p) =
     ledgerLoop ou tu toks (Suc i) names
       (acc @ [ledgerEntry ou tu toks i name],
        if Percentage (ledgerEntry ou tu toks i name) > m
        then (Percentage (ledgerEntry ou tu toks i name), name) else (m, p))"
  by (simp add: ledgerEntry_def Let_def)

lemma ledgerLoop_stats:
  "fst (ledgerLoop ou tu toks i names (acc, m, p)) =
     acc @ map (\<lambda>k. ledgerEntry ou tu toks (i + k) (names ! k)) [0..<length names]"
proof (induction names arbitrary: i acc m p)
  case Nil
  then show ?case by simp
next
  case (Cons name names)
  show ?case
    unfolding ledgerLoop_step
    by (simp add: Cons.IH map_upt_shift del: upt_Suc ledgerLoop.simps)
qed

lemma ledgerLoop_popular:
  "snd (ledgerLoop ou tu toks i names (acc, m, p)) =
     scanPopular (map (\<lambda>k. (Percentage (ledgerEntry ou tu toks (i + k) (names ! k)), names ! k))
        [0..<length names]) (m, p)"
proof (induction names arbitrary: i acc m p)
  case Nil
  then show ?case by simp
next
  case (Cons name names)
  show ?case
    unfolding ledgerLoop_step
    by (simp add: Cons.IH map_upt_shift del: upt_Suc ledgerLoop.simps)
qed

lemma pricesLoop_step:
  "pricesLoop c toks i (name # names) (acc, m, p) =
     pricesLoop c toks (Suc i) names
       (acc @ [priceEntry c toks i name],
        if parsedPrice c (priceAt toks i) > m
        then (parsedPrice c (priceAt toks i), name) else (m, p))"
  by (simp add: priceEntry_def priceAt_def parsedPrice_def Let_def)

lemma pricesLoop_stats:
  "fst (pricesLoop c toks i names (acc, m, p)) =
     acc @ map (\<lambda>k. priceEntry c toks (i + k) (names ! k)) [0..<length names]"
proof (induction names arbitrary: i acc m p)
  case Nil
  then show ?case by simp
next
  case (Cons name names)
  show ?case
    unfolding pricesLoop_step
    by (simp add: Cons.IH map_upt_shift del: upt_Suc pricesLoop.simps)
qed

lemma pricesLoop_popular:
  "snd (pricesLoop c toks i names (acc, m, p)) =
     scanPopular (map (\<lambda>k. (parsedPrice c (priceAt toks (i + k)), names ! k)) [0..<length names]) (m, p)"
proof (induction names arbitrary: i acc m p)
  case Nil
  then show ?case by simp
next
  case (Cons name names)
  show ?case
    unfolding pricesLoop_step
    by (simp add: Cons.IH map_upt_shift del: upt_Suc pricesLoop.simps)
qed

lemma computeStatsFromPrices_stats:
  "OutcomeStats (computeStatsFromPrices c market) =
     map (\<lambda>k. priceEntry c (OutcomeTokens market) k (Outcomes market ! k))
       [0..<length (Outcomes market)]"
  using pricesLoop_stats[of c "OutcomeTokens market" 0 "Outcomes market" "[]" 0 "[]"]
  by (simp add: computeStatsFromPrices_def split_beta)

lemma computeStatsFromPrices_popular:
  "PopularOutcome (computeStatsFromPrices c market) =
     snd (scanPopular (map (\<lambda>k. (parsedPrice c (priceAt (OutcomeTokens market) k), Outcomes market ! k))
            [0..<length (Outcomes market)]) (0, []))"
  "PopularPct (computeStatsFromPrices c market) =
     float64_mul (fst (scanPopular (map (\<lambda>k. (parsedPrice c (priceAt (OutcomeTokens market) k),
            Outcomes market ! k)) [0..<length (Outcomes market)]) (0, []))) 100"
  using pricesLoop_popular[of c "OutcomeTokens market" 0 "Outcomes market" "[]" 0 "[]"]
  by (simp_all add: computeStatsFromPrices_def split_beta)

lemma statsFromLedger_stats:
  "OutcomeStats (statsFromLedger market ou tu) =
     map (\<lambda>k. ledgerEntry ou tu (OutcomeTokens market) k (Outcomes market ! k))
       [0..<length (Outcomes market)]"
  using ledgerLoop_stats[of ou tu "OutcomeTokens market" 0 "Outcomes market" "[]" 0 "[]"]
  by (simp add: statsFromLedger_def split_beta)

lemma statsFromLedger_popular:
  "(PopularPct (statsFromLedger market ou tu), PopularOutcome (statsFromLedger market ou tu)) =
     scanPopular (percentages (statsFromLedger market ou tu)) (0, [])"
proof -
  have "percentages (statsFromLedger market ou tu) =
      map (\<lambda>k. (Percentage (ledgerEntry ou tu (OutcomeTokens market) k (Outcomes market ! k)),
                 Outcomes market ! k)) [0..<length (Outcomes market)]"
    by (simp add: percentages_def statsFromLedger_stats ledgerEntry_def)
  then show ?thesis
    using ledgerLoop_popular[of ou tu "OutcomeTokens market" 0 "Outcomes market" "[]" 0 "[]"]
    by (simp add: statsFromLedger_def split_beta)
qed

lemma ComputeMarketStats_cases:
  obtains
    (failed) e where "GetMarketPositions c (ConditionID market) = Inl e"
      "ComputeMarketStats c market = (computeStatsFromPrices c market, None)"
  | (empty) ps where "GetMarketPositions c (ConditionID market) = Inr ps" "allUsers ps = {}"
      "ComputeMarketStats c market = (computeStatsFromPrices c market, None)"
  | (ledger) ps where "GetMarketPositions c (ConditionID market) = Inr ps" "allUsers ps \<noteq> {}"
      "ComputeMarketStats c market =
         (statsFromLedger market (fst (groupPositions ps)) (int (card (allUsers ps))), None)"
proof (cases "GetMarketPositions c (ConditionID market)")
  case (Inl e)
  then show ?thesis using failed by (simp add: ComputeMarketStats_def)
next
  case (Inr ps)
  show ?thesis
  proof (cases "allUsers ps = {}")
    case True
    then show ?thesis using Inr empty by (simp add: ComputeMarketStats_def groupPositions_eq)
  next
    case False
    then have "card (allUsers ps) \<noteq> 0" using finite_allUsers by simp
    then show ?thesis using Inr False ledger by (simp add: ComputeMarketStats_def groupPositions_eq)
  qed
qed

declare Sprint_nat.simps [simp del]

lemma Sprint_0: "Sprint 0 = ''0''"
  by (simp add: Sprint_def Sprint_nat.simps[of 0] digit_char_def)

lemma Sprint_1: "Sprint 1 = ''1''"
  by (simp add: Sprint_def Sprint_nat.simps[of "Suc 0"] digit_char_def)

lemma priceClient_fetch:
  "GetMarketPositions priceClient m =
     Inl (Wrapped ''failed to query positions (skip=0)'' (Failure ''connection refused''))"
  by (simp add: GetMarketPositions_def GetMarketPositions_run_def loop_failed page_def
      priceClient_def Sprint_0)

lemma ledgerClient_fetch:
  "GetMarketPositions ledgerClient m =
     Inr [position ''alice'' ''0'', position ''alice'' ''1'', position ''bob'' ''0'']"
  by (simp add: GetMarketPositions_def GetMarketPositions_run_def loop_short page_def
      ledgerClient_def limit_def)

lemma ledger_allUsers:
  "allUsers [position ''alice'' ''0'', position ''alice'' ''1'', position ''bob'' ''0''] = {''alice'', ''bob''}"
  by (auto simp: allUsers_def position_def)

lemma ledger_users_0:
  "usersOfOutcome [position ''alice'' ''0'', position ''alice'' ''1'', position ''bob'' ''0''] ''0''
     = {''alice'', ''bob''}"
  by (auto simp: usersOfOutcome_def position_def)

lemma ledger_users_1:
  "usersOfOutcome [position ''alice'' ''0'', position ''alice'' ''1'', position ''bob'' ''0''] ''1''
     = {''alice''}"
  by (auto simp: usersOfOutcome_def position_def)

lemma scanDecimal_examples:
  "scanDecimal ''0.7'' = Some (7 / 10)" "scanDecimal ''0.3'' = Some (3 / 10)"
  "scanDecimal ''0.2'' = Some (1 / 5)" "scanDecimal ''abc'' = None"
  by (simp_all add: scanDecimal_def digit_of_def)

text \<open>
  Claim C1.  \<open>ComputeMarketStats\<close> returns the \<open>nil\<close> error for every client and every
  market.  When the position fetch fails, and when it succeeds with no distinct user,
  the statistics are those of price mode, whose \<open>TotalUsers\<close> is 0; in every other case
  they are the ledger-mode statistics, whose \<open>TotalUsers\<close> is positive.
\<close>

theorem ComputeMarketStats_never_fails:
  "snd (ComputeMarketStats c market) = None \<and>
   TotalUsers (computeStatsFromPrices c market) = 0 \<and>
   (\<forall>e. GetMarketPositions c (ConditionID market) = Inl e \<longrightarrow>
        fst (ComputeMarketStats c market) = computeStatsFromPrices c market) \<and>
   (\<forall>ps. GetMarketPositions c (ConditionID market) = Inr ps \<and> allUsers ps = {} \<longrightarrow>
        fst (ComputeMarketStats c market) = computeStatsFromPrices c market) \<and>
   (\<forall>ps. GetMarketPositions c (ConditionID market) = Inr ps \<and> allUsers ps \<noteq> {} \<longrightarrow>
        fst (ComputeMarketStats c market) =
          statsFromLedger market (fst (groupPositions ps)) (int (card (allUsers ps))) \<and>
        0 < TotalUsers (fst (ComputeMarketStats c market)))"
proof -
  have total: "TotalUsers (computeStatsFromPrices c market) = 0"
    by (simp add: computeStatsFromPrices_def split_beta)
  show ?thesis
  proof (cases rule: ComputeMarketStats_cases[of c market])
    case (failed e)
    then show ?thesis using total by simp
  next
    case (empty ps)
    then show ?thesis using total by simp
  next
    case (ledger ps)
    have "0 < card (allUsers ps)"
      using ledger(2) finite_allUsers by (simp add: card_gt_0_iff)
    then show ?thesis using ledger total by (simp add: statsFromLedger_def split_beta)
  qed
qed

theorem ComputeMarketStats_never_fails_witness:
  "snd (ComputeMarketStats priceClient (market_of [''Yes'', ''No''] [''0.7'', ''0.3''])) = None \<and>
   fst (ComputeMarketStats priceClient (market_of [''Yes'', ''No''] [''0.7'', ''0.3''])) =
     computeStatsFromPrices priceClient (market_of [''Yes'', ''No''] [''0.7'', ''0.3'']) \<and>
   TotalUsers (fst (ComputeMarketStats ledgerClient (market_of [''Yes'', ''No''] [''0.7'', ''0.3'']))) = 2"
proof -
  let ?m = "market_of [''Yes'', ''No''] [''0.7'', ''0.3'']"
  have a: "GetMarketPositions priceClient (ConditionID ?m) =
      Inl (Wrapped ''failed to query positions (skip=0)'' (Failure ''connection refused''))"
    by (rule priceClient_fetch)
  have b: "GetMarketPositions ledgerClient (ConditionID ?m) =
      Inr [position ''alice'' ''0'', position ''alice'' ''1'', position ''bob'' ''0'']"
    by (rule ledgerClient_fetch)
  have "TotalUsers (fst (ComputeMarketStats ledgerClient ?m)) = 2"
    using ComputeMarketStats_never_fails[of ledgerClient ?m] b
    by (simp add: ledger_allUsers statsFromLedger_def split_beta)
  then show ?thesis
    using ComputeMarketStats_never_fails[of priceClient ?m] a by simp
qed









lemma upt_2: "[0..<2] = [0, Suc 0]"
  by (simp add: numeral_2_eq_2)

lemma price_example_yes_no:
  assumes "Sscanf_f c ''0.7'' = Some x" "Sscanf_f c ''0.3'' = Some y"
    "float64_mul x 100 = 70" "float64_mul y 100 = 30" "0 < x" "y \<le> x"
    "Outcomes market = [''Yes'', ''No'']" "OutcomeTokens market = [''0.7'', ''0.3'']"
  shows "map Percentage (OutcomeStats (computeStatsFromPrices c market)) = [70, 30] \<and>
         PopularOutcome (computeStatsFromPrices c market) = ''Yes'' \<and>
         PopularPct (computeStatsFromPrices c market) = 70"
proof -
  have st: "OutcomeStats (computeStatsFromPrices c market) =
      [\<lparr>Outcome = ''Yes'', OutcomeIndex = 0, UserCount = 0, Percentage = 70, Price = ''0.7''\<rparr>,
       \<lparr>Outcome = ''No'', OutcomeIndex = 1, UserCount = 0, Percentage = 30, Price = ''0.3''\<rparr>]"
    using assms
    by (simp add: computeStatsFromPrices_stats priceEntry_def priceAt_def parsedPrice_def upt_2)
  have "map (\<lambda>k. (parsedPrice c (priceAt (OutcomeTokens market) k), Outcomes market ! k))
      [0..<length (Outcomes market)] = [(x, ''Yes''), (y, ''No'')]"
    using assms by (simp add: priceAt_def parsedPrice_def upt_2)
  then show ?thesis
    using computeStatsFromPrices_popular[of c market] st assms(3,5,6) by simp
qed

text \<open>
  Claim C3.  In price mode \<open>TotalUsers\<close> is 0 and there is one entry per outcome, in
  order.  The entry at index \<open>i\<close> has the outcome's name and index, \<open>UserCount\<close> 0, the
  price string at index \<open>i\<close> of the market's prices, or "0" when there is no such price,
  and as \<open>Percentage\<close> the \<open>float64\<close> product of the number scanned from that string and
  100, or 0 when the scan fails; the product is the exact one whenever that is a
  \<open>float64\<close>.  For outcomes Yes, No with prices "0.7", "0.3" the percentages are 70 and
  30, the popular outcome is Yes and its percentage 70, both when the scanner returns
  7/10 and 3/10 and when it returns the \<open>float64\<close> numbers nearest to them.
\<close>

theorem price_mode_statistics:
  "TotalUsers (computeStatsFromPrices c market) = 0 \<and>
   length (OutcomeStats (computeStatsFromPrices c market)) = length (Outcomes market) \<and>
   (\<forall>i < length (Outcomes market).
      Outcome (OutcomeStats (computeStatsFromPrices c market) ! i) = Outcomes market ! i \<and>
      OutcomeIndex (OutcomeStats (computeStatsFromPrices c market) ! i) = int i \<and>
      Price (OutcomeStats (computeStatsFromPrices c market) ! i) =
        (if i < length (OutcomeTokens market) then OutcomeTokens market ! i else ''0'') \<and>
      UserCount (OutcomeStats (computeStatsFromPrices c market) ! i) = 0 \<and>
      Percentage (OutcomeStats (computeStatsFromPrices c market) ! i) =
        (case Sscanf_f c (Price (OutcomeStats (computeStatsFromPrices c market) ! i)) of
           None \<Rightarrow> 0 | Some x \<Rightarrow> float64_mul x 100) \<and>
      (\<forall>x. Sscanf_f c (Price (OutcomeStats (computeStatsFromPrices c market) ! i)) = Some x \<and>
           round64 (x * 100) = x * 100 \<longrightarrow>
           Percentage (OutcomeStats (computeStatsFromPrices c market) ! i) = x * 100)) \<and>
   (Sscanf_f c ''0.7'' = Some (7 / 10) \<and> Sscanf_f c ''0.3'' = Some (3 / 10) \<and>
    Outcomes market = [''Yes'', ''No''] \<and> OutcomeTokens market = [''0.7'', ''0.3''] \<longrightarrow>
      map Percentage (OutcomeStats (computeStatsFromPrices c market)) = [70, 30] \<and>
      PopularOutcome (computeStatsFromPrices c market) = ''Yes'' \<and>
      PopularPct (computeStatsFromPrices c market) = 70) \<and>
   (Sscanf_f c ''0.7'' = Some (round64 (7 / 10)) \<and> Sscanf_f c ''0.3'' = Some (round64 (3 / 10)) \<and>
    Outcomes market = [''Yes'', ''No''] \<and> OutcomeTokens market = [''0.7'', ''0.3''] \<longrightarrow>
      map Percentage (OutcomeStats (computeStatsFromPrices c market)) = [70, 30] \<and>
      PopularOutcome (computeStatsFromPrices c market) = ''Yes'' \<and>
      PopularPct (computeStatsFromPrices c market) = 70)"
proof -
  have a: "TotalUsers (computeStatsFromPrices c market) = 0"
    by (simp add: computeStatsFromPrices_def split_beta)
  have b: "length (OutcomeStats (computeStatsFromPrices c market)) = length (Outcomes market)"
    by (simp add: computeStatsFromPrices_stats)
  have e: "\<forall>i < length (Outcomes market).
      Outcome (OutcomeStats (computeStatsFromPrices c market) ! i) = Outcomes market ! i \<and>
      OutcomeIndex (OutcomeStats (computeStatsFromPrices c market) ! i) = int i \<and>
      Price (OutcomeStats (computeStatsFromPrices c market) ! i) =
        (if i < length (OutcomeTokens market) then OutcomeTokens market ! i else ''0'') \<and>
      UserCount (OutcomeStats (computeStatsFromPrices c market) ! i) = 0 \<and>
      Percentage (OutcomeStats (computeStatsFromPrices c market) ! i) =
        (case Sscanf_f c (Price (OutcomeStats (computeStatsFromPrices c market) ! i)) of
           None \<Rightarrow> 0 | Some x \<Rightarrow> float64_mul x 100) \<and>
      (\<forall>x. Sscanf_f c (Price (OutcomeStats (computeStatsFromPrices c market) ! i)) = Some x \<and>
           round64 (x * 100) = x * 100 \<longrightarrow>
           Percentage (OutcomeStats (computeStatsFromPrices c market) ! i) = x * 100)"
    by (simp add: computeStatsFromPrices_stats priceEntry_def priceAt_def parsedPrice_def
        float64_mul_def round64_0 split: option.splits)
  have x1: "Sscanf_f c ''0.7'' = Some (7 / 10) \<and> Sscanf_f c ''0.3'' = Some (3 / 10) \<and>
    Outcomes market = [''Yes'', ''No''] \<and> OutcomeTokens market = [''0.7'', ''0.3''] \<longrightarrow>
      map Percentage (OutcomeStats (computeStatsFromPrices c market)) = [70, 30] \<and>
      PopularOutcome (computeStatsFromPrices c market) = ''Yes'' \<and>
      PopularPct (computeStatsFromPrices c market) = 70"
    using price_example_yes_no[of c "7 / 10" "3 / 10" market]
    by (simp add: float64_mul_exact)
  have x2: "Sscanf_f c ''0.7'' = Some (round64 (7 / 10)) \<and> Sscanf_f c ''0.3'' = Some (round64 (3 / 10)) \<and>
    Outcomes market = [''Yes'', ''No''] \<and> OutcomeTokens market = [''0.7'', ''0.3''] \<longrightarrow>
      map Percentage (OutcomeStats (computeStatsFromPrices c market)) = [70, 30] \<and>
      PopularOutcome (computeStatsFromPrices c market) = ''Yes'' \<and>
      PopularPct (computeStatsFromPrices c market) = 70"
    using price_example_yes_no[of c "round64 (7 / 10)" "round64 (3 / 10)" market]
    by (simp add: round64_7_10 round64_3_10 float64_mul_7_10 float64_mul_3_10)
  show ?thesis
    using a b e x1 x2 by blast
qed

theorem price_mode_statistics_witness:
  "map Percentage (OutcomeStats (computeStatsFromPrices priceClient
      (market_of [''Yes'', ''No''] [''0.7'', ''0.3'']))) = [70, 30] \<and>
   PopularOutcome (computeStatsFromPrices priceClient
      (market_of [''Yes'', ''No''] [''0.7'', ''0.3''])) = ''Yes'' \<and>
   PopularPct (computeStatsFromPrices priceClient
      (market_of [''Yes'', ''No''] [''0.7'', ''0.3''])) = 70 \<and>
   Price (OutcomeStats (computeStatsFromPrices priceClient (market_of [''A'', ''B''] [''abc''])) ! 0) = ''abc'' \<and>
   Percentage (OutcomeStats (computeStatsFromPrices priceClient (market_of [''A'', ''B''] [''abc''])) ! 0) = 0 \<and>
   Price (OutcomeStats (computeStatsFromPrices priceClient (market_of [''A'', ''B''] [''abc''])) ! 1) = ''0''"
proof -
  have sc: "Sscanf_f priceClient ''0.7'' = Some (round64 (7 / 10))"
    "Sscanf_f priceClient ''0.3'' = Some (round64 (3 / 10))"
    "Sscanf_f priceClient ''abc'' = None"
    by (simp_all add: priceClient_def scanFloat_def scanDecimal_examples)
  have len: "length (Outcomes (market_of [''A'', ''B''] [''abc''])) = 2"
    "OutcomeTokens (market_of [''A'', ''B''] [''abc'']) = [''abc'']"
    by (simp_all add: market_of_def)
  have "Price (OutcomeStats (computeStatsFromPrices priceClient (market_of [''A'', ''B''] [''abc''])) ! 0) = ''abc'' \<and>
   Percentage (OutcomeStats (computeStatsFromPrices priceClient (market_of [''A'', ''B''] [''abc''])) ! 0) = 0 \<and>
   Price (OutcomeStats (computeStatsFromPrices priceClient (market_of [''A'', ''B''] [''abc''])) ! 1) = ''0''"
    using price_mode_statistics[of priceClient "market_of [''A'', ''B''] [''abc'']"] sc
    by (simp add: len All_less_Suc numeral_2_eq_2)
  then show ?thesis
    using price_mode_statistics[of priceClient "market_of [''Yes'', ''No''] [''0.7'', ''0.3'']"] sc
    by (simp add: market_of_def)
qed

text \<open>
  Claim C4.  Ledger mode follows the rule of the claim: its loop compares the
  percentages it reports.  Price mode compares the parsed prices and reports their
  rounded products, and there the claim fails.  With the ledger down and outcomes A, B
  priced "0.7" and "0.7000000000000001", both reported percentages are 70, and the
  popular outcome is B, the later one, where the scan of the reported percentages on
  strict greater-than gives A.
\<close>

theorem price_mode_tie_goes_to_later_outcome:
  "fst (ComputeMarketStats priceClient (market_of [''A'', ''B''] [''0.7'', ''0.7000000000000001'']))
     = computeStatsFromPrices priceClient (market_of [''A'', ''B''] [''0.7'', ''0.7000000000000001'']) \<and>
   map Percentage (OutcomeStats (computeStatsFromPrices priceClient
     (market_of [''A'', ''B''] [''0.7'', ''0.7000000000000001'']))) = [70, 70] \<and>
   PopularOutcome (computeStatsFromPrices priceClient
     (market_of [''A'', ''B''] [''0.7'', ''0.7000000000000001''])) = ''B'' \<and>
   PopularPct (computeStatsFromPrices priceClient
     (market_of [''A'', ''B''] [''0.7'', ''0.7000000000000001''])) = 70 \<and>
   snd (scanPopular (percentages (computeStatsFromPrices priceClient
     (market_of [''A'', ''B''] [''0.7'', ''0.7000000000000001'']))) (0, [])) = ''A''"
proof -
  let ?m = "market_of [''A'', ''B''] [''0.7'', ''0.7000000000000001'']"
  have sc: "Sscanf_f priceClient ''0.7'' = Some (3152519739159347 / 4503599627370496)"
    "Sscanf_f priceClient ''0.7000000000000001'' = Some (6305039478318695 / 9007199254740992)"
    by (simp_all add: priceClient_def scanFloat_def scanDecimal_def digit_of_def
        round64_7_10 round64_7_10_next)
  have flds: "Outcomes ?m = [''A'', ''B'']" "OutcomeTokens ?m = [''0.7'', ''0.7000000000000001'']"
    by (simp_all add: market_of_def)
  have st: "OutcomeStats (computeStatsFromPrices priceClient ?m) =
      [\<lparr>Outcome = ''A'', OutcomeIndex = 0, UserCount = 0, Percentage = 70, Price = ''0.7''\<rparr>,
       \<lparr>Outcome = ''B'', OutcomeIndex = 1, UserCount = 0, Percentage = 70,
        Price = ''0.7000000000000001''\<rparr>]"
    unfolding computeStatsFromPrices_stats flds
    by (simp add: priceEntry_def priceAt_def parsedPrice_def upt_2 sc
        float64_mul_7_10 float64_mul_7_10_next)
  have prices: "map (\<lambda>k. (parsedPrice priceClient (priceAt (OutcomeTokens ?m) k), Outcomes ?m ! k))
      [0..<length (Outcomes ?m)] =
      [(3152519739159347 / 4503599627370496, ''A''), (6305039478318695 / 9007199254740992, ''B'')]"
    unfolding flds by (simp add: priceAt_def parsedPrice_def upt_2 sc)
  have pop: "PopularOutcome (computeStatsFromPrices priceClient ?m) = ''B''"
    "PopularPct (computeStatsFromPrices priceClient ?m) = 70"
    unfolding computeStatsFromPrices_popular prices
    by (simp_all add: float64_mul_7_10_next)
  have rule: "snd (scanPopular (percentages (computeStatsFromPrices priceClient ?m)) (0, [])) = ''A''"
    unfolding percentages_def st by simp
  have disp: "fst (ComputeMarketStats priceClient ?m) = computeStatsFromPrices priceClient ?m"
    by (cases rule: ComputeMarketStats_cases[of priceClient ?m]) (simp_all add: priceClient_fetch)
  show ?thesis
    using disp st pop rule by simp
qed

lemma ledgerEntry_bounds:
  assumes "0 < card (allUsers ps)"
  shows "0 \<le> UserCount (ledgerEntry (fst (groupPositions ps)) (int (card (allUsers ps))) toks i name) \<and>
         UserCount (ledgerEntry (fst (groupPositions ps)) (int (card (allUsers ps))) toks i name)
           \<le> int (card (allUsers ps)) \<and>
         0 \<le> Percentage (ledgerEntry (fst (groupPositions ps)) (int (card (allUsers ps))) toks i name) \<and>
         Percentage (ledgerEntry (fst (groupPositions ps)) (int (card (allUsers ps))) toks i name) \<le> 100"
proof -
  let ?u = "card (usersOfOutcome ps (Sprint (int i)))"
  let ?t = "card (allUsers ps)"
  have le: "?u \<le> ?t"
    by (intro card_mono finite_allUsers usersOfOutcome_subset)
  have cnt: "(case fst (groupPositions ps) (Sprint (int i)) of None \<Rightarrow> 0 | Some users \<Rightarrow> int (card users))
      = int ?u"
    by (simp add: groupPositions_eq)
  have "(of_nat ?u :: rat) / of_nat ?t \<le> 1"
    using le assms by (simp add: divide_le_eq_1)
  then have "(of_nat ?u :: rat) / of_nat ?t * 100 \<le> 1 * 100"
    by (intro mult_right_mono) simp_all
  then have "(of_nat ?u :: rat) / of_nat ?t * 100 \<le> 100" by simp
  moreover have "0 \<le> (of_nat ?u :: rat) / of_nat ?t * 100" by simp
  ultimately show ?thesis
    using le assms by (simp add: ledgerEntry_def cnt del: times_divide_eq_left)
qed


lemma ledgerClient_stats:
  "OutcomeStats (fst (ComputeMarketStats ledgerClient (market_of [''Yes'', ''No''] [''0.7'', ''0.3'']))) =
     [\<lparr>Outcome = ''Yes'', OutcomeIndex = 0, UserCount = 2, Percentage = 100, Price = ''0.7''\<rparr>,
      \<lparr>Outcome = ''No'', OutcomeIndex = 1, UserCount = 1, Percentage = 50, Price = ''0.3''\<rparr>]"
  "TotalUsers (fst (ComputeMarketStats ledgerClient (market_of [''Yes'', ''No''] [''0.7'', ''0.3'']))) = 2"
proof -
  let ?m = "market_of [''Yes'', ''No''] [''0.7'', ''0.3'']"
  let ?ps = "[position ''alice'' ''0'', position ''alice'' ''1'', position ''bob'' ''0'']"
  have st: "fst (ComputeMarketStats ledgerClient ?m) = statsFromLedger ?m (fst (groupPositions ?ps)) 2"
    by (cases rule: ComputeMarketStats_cases[of ledgerClient ?m])
       (simp_all add: ledgerClient_fetch ledger_allUsers)
  show "OutcomeStats (fst (ComputeMarketStats ledgerClient ?m)) =
     [\<lparr>Outcome = ''Yes'', OutcomeIndex = 0, UserCount = 2, Percentage = 100, Price = ''0.7''\<rparr>,
      \<lparr>Outcome = ''No'', OutcomeIndex = 1, UserCount = 1, Percentage = 50, Price = ''0.3''\<rparr>]"
    unfolding st statsFromLedger_stats
    by (simp add: market_of_def upt_2 ledgerEntry_def groupPositions_eq
        Sprint_0 Sprint_1 ledger_users_0 ledger_users_1)
  show "TotalUsers (fst (ComputeMarketStats ledgerClient ?m)) = 2"
    unfolding st by (simp add: statsFromLedger_def split_beta)
qed

text \<open>
  Claim C10.  Every per-outcome user set of the grouping is a subset of the global user
  set.  In ledger mode every entry's \<open>UserCount\<close> lies between 0 and \<open>TotalUsers\<close> and every
  \<open>Percentage\<close> between 0 and 100.  Yet there is a ledger-mode run in which the user counts
  sum to more than \<open>TotalUsers\<close> and the percentages do not sum to 100: a user with
  positions on two outcomes is counted in both groups and once globally.
\<close>

theorem ledger_mode_bounds:
  "(\<forall>label users. fst (groupPositions ps) label = Some users \<longrightarrow> users \<subseteq> snd (groupPositions ps)) \<and>
   (GetMarketPositions c (ConditionID market) = Inr ps \<and> allUsers ps \<noteq> {} \<longrightarrow>
      list_all (\<lambda>st. 0 \<le> UserCount st \<and>
                     UserCount st \<le> TotalUsers (fst (ComputeMarketStats c market)) \<and>
                     0 \<le> Percentage st \<and> Percentage st \<le> 100)
        (OutcomeStats (fst (ComputeMarketStats c market)))) \<and>
   (\<exists>c' market' ps'.
      GetMarketPositions c' (ConditionID market') = Inr ps' \<and> allUsers ps' \<noteq> {} \<and>
      TotalUsers (fst (ComputeMarketStats c' market')) <
        sum_list (map UserCount (OutcomeStats (fst (ComputeMarketStats c' market')))) \<and>
      sum_list (map Percentage (OutcomeStats (fst (ComputeMarketStats c' market')))) \<noteq> 100)"
proof (intro conjI)
  show "\<forall>label users. fst (groupPositions ps) label = Some users \<longrightarrow> users \<subseteq> snd (groupPositions ps)"
    using usersOfOutcome_subset[of ps] by (auto simp: groupPositions_eq split: if_splits)
next
  show "GetMarketPositions c (ConditionID market) = Inr ps \<and> allUsers ps \<noteq> {} \<longrightarrow>
      list_all (\<lambda>st. 0 \<le> UserCount st \<and>
                     UserCount st \<le> TotalUsers (fst (ComputeMarketStats c market)) \<and>
                     0 \<le> Percentage st \<and> Percentage st \<le> 100)
        (OutcomeStats (fst (ComputeMarketStats c market)))"
  proof
    assume h: "GetMarketPositions c (ConditionID market) = Inr ps \<and> allUsers ps \<noteq> {}"
    then have pos: "0 < card (allUsers ps)"
      using finite_allUsers by (simp add: card_gt_0_iff)
    have st: "fst (ComputeMarketStats c market) =
        statsFromLedger market (fst (groupPositions ps)) (int (card (allUsers ps)))"
      using h by (cases rule: ComputeMarketStats_cases[of c market]) simp_all
    have tot: "TotalUsers (fst (ComputeMarketStats c market)) = int (card (allUsers ps))"
      by (simp add: st statsFromLedger_def split_beta)
    show "list_all (\<lambda>st. 0 \<le> UserCount st \<and>
                     UserCount st \<le> TotalUsers (fst (ComputeMarketStats c market)) \<and>
                     0 \<le> Percentage st \<and> Percentage st \<le> 100)
        (OutcomeStats (fst (ComputeMarketStats c market)))"
      unfolding tot unfolding st statsFromLedger_stats list.pred_map comp_def
      using ledgerEntry_bounds[OF pos] by (simp add: list_all_iff)
  qed
next
  let ?m = "market_of [''Yes'', ''No''] [''0.7'', ''0.3'']"
  let ?ps = "[position ''alice'' ''0'', position ''alice'' ''1'', position ''bob'' ''0'']"
  have "GetMarketPositions ledgerClient (ConditionID ?m) = Inr ?ps \<and> allUsers ?ps \<noteq> {} \<and>
      TotalUsers (fst (ComputeMarketStats ledgerClient ?m)) <
        sum_list (map UserCount (OutcomeStats (fst (ComputeMarketStats ledgerClient ?m)))) \<and>
      sum_list (map Percentage (OutcomeStats (fst (ComputeMarketStats ledgerClient ?m)))) \<noteq> 100"
    by (simp add: ledgerClient_fetch ledger_allUsers ledgerClient_stats)
  then show "\<exists>c' market' ps'.
      GetMarketPositions c' (ConditionID market') = Inr ps' \<and> allUsers ps' \<noteq> {} \<and>
      TotalUsers (fst (ComputeMarketStats c' market')) <
        sum_list (map UserCount (OutcomeStats (fst (ComputeMarketStats c' market')))) \<and>
      sum_list (map Percentage (OutcomeStats (fst (ComputeMarketStats c' market')))) \<noteq> 100"
    by blast
qed

theorem ledger_mode_bounds_witness:
  "list_all (\<lambda>st. 0 \<le> UserCount st \<and> UserCount st \<le> 2 \<and> 0 \<le> Percentage st \<and> Percentage st \<le> 100)
     (OutcomeStats (fst (ComputeMarketStats ledgerClient (market_of [''Yes'', ''No''] [''0.7'', ''0.3''])))) \<and>
   sum_list (map UserCount
     (OutcomeStats (fst (ComputeMarketStats ledgerClient (market_of [''Yes'', ''No''] [''0.7'', ''0.3'']))))) = 3"
proof -
  let ?m = "market_of [''Yes'', ''No''] [''0.7'', ''0.3'']"
  let ?ps = "[position ''alice'' ''0'', position ''alice'' ''1'', position ''bob'' ''0'']"
  have h: "GetMarketPositions ledgerClient (ConditionID ?m) = Inr ?ps \<and> allUsers ?ps \<noteq> {}"
    by (simp add: ledgerClient_fetch ledger_allUsers)
  have "list_all (\<lambda>st. 0 \<le> UserCount st \<and> UserCount st \<le> TotalUsers (fst (ComputeMarketStats ledgerClient ?m)) \<and>
           0 \<le> Percentage st \<and> Percentage st \<le> 100)
     (OutcomeStats (fst (ComputeMarketStats ledgerClient ?m)))"
    using ledger_mode_bounds[of ?ps ledgerClient ?m] h by blast
  then show ?thesis
    by (simp add: ledgerClient_stats)
qed

section \<open>Properties of the normalization\<close>

lemma tryFormats_other_fields:
  "ID (tryFormats c fs v m) = ID m" "ConditionID (tryFormats c fs v m) = ConditionID m"
  "Question (tryFormats c fs v m) = Question m" "Description (tryFormats c fs v m) = Description m"
  "Outcomes (tryFormats c fs v m) = Outcomes m" "OutcomeTokens (tryFormats c fs v m) = OutcomeTokens m"
  "Volume (tryFormats c fs v m) = Volume m" "Liquidity (tryFormats c fs v m) = Liquidity m"
  "Active (tryFormats c fs v m) = Active m"
  by (induction fs) (simp_all split: sum.splits)

lemma tryFormats_none:
  "list_all (\<lambda>f. isl (time_Parse c f v)) fs \<Longrightarrow> tryFormats c fs v m = m"
  by (induction fs) (auto split: sum.splits)

lemma tryFormats_first:
  "k < length fs \<Longrightarrow> time_Parse c (fs ! k) v = Inr t \<Longrightarrow>
   list_all (\<lambda>f. isl (time_Parse c f v)) (take k fs) \<Longrightarrow>
   EndDate (tryFormats c fs v m) = t"
proof (induction fs arbitrary: k)
  case Nil
  then show ?case by simp
next
  case (Cons f fs)
  show ?case
  proof (cases k)
    case 0
    then show ?thesis using Cons.prems by simp
  next
    case (Suc j)
    then have "isl (time_Parse c f v)" using Cons.prems by simp
    then obtain e where "time_Parse c f v = Inl e" by (cases "time_Parse c f v") simp_all
    then show ?thesis using Cons.IH[of j] Cons.prems Suc by simp
  qed
qed

lemma convert_outcomes:
  "Outcomes (convertGammaMarket c gm) =
     (if Gamma_Outcomes gm = [] then []
      else (case Unmarshal_strings c (Gamma_Outcomes gm) of Inl e \<Rightarrow> [] | Inr xs \<Rightarrow> xs))"
  by (simp add: convertGammaMarket_def Let_def tryFormats_other_fields split: sum.splits)

lemma convert_prices:
  "OutcomeTokens (convertGammaMarket c gm) =
     (if Gamma_OutcomePrices gm = [] then []
      else (case Unmarshal_strings c (Gamma_OutcomePrices gm) of Inl e \<Rightarrow> [] | Inr xs \<Rightarrow> xs))"
  by (simp add: convertGammaMarket_def Let_def tryFormats_other_fields split: sum.splits)

lemma convert_copied:
  "ID (convertGammaMarket c gm) = Gamma_ID gm"
  "ConditionID (convertGammaMarket c gm) = Gamma_ConditionID gm"
  "Question (convertGammaMarket c gm) = Gamma_Question gm"
  "Description (convertGammaMarket c gm) = Gamma_Description gm"
  "Volume (convertGammaMarket c gm) = Gamma_Volume gm"
  "Liquidity (convertGammaMarket c gm) = Gamma_Liquidity gm"
  "Active (convertGammaMarket c gm) = (Gamma_Active gm \<and> \<not> Gamma_Closed gm)"
  by (simp_all add: convertGammaMarket_def Let_def tryFormats_other_fields split: sum.splits)

lemma convert_endDate:
  "EndDate (convertGammaMarket c gm) =
     (if Gamma_EndDateISO gm = [] then 0
      else EndDate (tryFormats c formats (Gamma_EndDateISO gm)
             \<lparr>ID = [], ConditionID = [], Question = [], Description = [], Outcomes = [],
              OutcomeTokens = [], EndDate = 0, Volume = [], Liquidity = [], Active = False\<rparr>))"
proof -
  have indep: "EndDate (tryFormats c fs v m) = EndDate (tryFormats c fs v m')"
    if "EndDate m = EndDate m'" for fs v m m'
    using that by (induction fs) (simp_all split: sum.splits)
  show ?thesis
    by (auto simp: convertGammaMarket_def Let_def split: sum.splits intro!: indep)
qed

lemma convert_endDate_none:
  assumes "list_all (\<lambda>f. isl (time_Parse c f (Gamma_EndDateISO gm))) formats"
  shows "EndDate (convertGammaMarket c gm) = 0"
  by (simp add: convert_endDate tryFormats_none[OF assms])

lemma convert_endDate_first:
  assumes "Gamma_EndDateISO gm \<noteq> []" "k < length formats"
    "time_Parse c (formats ! k) (Gamma_EndDateISO gm) = Inr t"
    "list_all (\<lambda>f. isl (time_Parse c f (Gamma_EndDateISO gm))) (take k formats)"
  shows "EndDate (convertGammaMarket c gm) = t"
  using assms(1) by (simp add: convert_endDate tryFormats_first[OF assms(2,3,4)])


lemma stub_facts:
  "stubUnmarshal ''Yes,No'' = Inl (Failure ''invalid character'')"
  "stubUnmarshal json_prices = Inr [''0.7'', ''0.3'']"
  "stubUnmarshal json_Yes_No = Inr [''Yes'', ''No'']"
  "json_prices \<noteq> []" "json_Yes_No \<noteq> []"
  by (simp_all add: stubUnmarshal_def json_Yes_No_def json_prices_def quoted_def)

lemma stubParse_facts:
  "stubParse RFC3339 ''2020-01-01'' = Inl (Failure ''cannot parse'')"
  "stubParse ''2006-01-02'' ''2020-01-01'' = Inr t2020"
  "list_all (\<lambda>f. isl (stubParse f ''next week'')) formats"
  by (simp_all add: stubParse_def RFC3339_def formats_def)

lemma catalog_fields:
  "Unmarshal_strings catalogClient = stubUnmarshal" "time_Parse catalogClient = stubParse"
  by (simp_all add: catalogClient_def)

text \<open>
  Claim C7.  \<open>convertGammaMarket\<close> returns a \<open>Market\<close> for every record: the Go function has
  no error result and no operation that can panic, and the model is a total function.
  Each field degrades on its own.  When the outcomes string does not decode as a JSON
  string array, \<open>Outcomes\<close> is empty, and when it is non-empty and decodes, \<open>Outcomes\<close> is
  the decoded array; likewise for the prices.  The end date is tried against the layouts
  RFC3339, date only, date and time without zone, in this order: the first layout that
  parses gives the end date, and when none parses the end date is the zero time.  The
  other fields are copied.
\<close>

theorem convertGammaMarket_degrades_per_field:
  "formats = [RFC3339, ''2006-01-02'', ''2006-01-02T15:04:05''] \<and>
   RFC3339 = ''2006-01-02T15:04:05Z07:00'' \<and>
   (isl (Unmarshal_strings c (Gamma_Outcomes gm)) \<longrightarrow> Outcomes (convertGammaMarket c gm) = []) \<and>
   (Gamma_Outcomes gm \<noteq> [] \<and> Unmarshal_strings c (Gamma_Outcomes gm) = Inr xs \<longrightarrow>
      Outcomes (convertGammaMarket c gm) = xs) \<and>
   (isl (Unmarshal_strings c (Gamma_OutcomePrices gm)) \<longrightarrow>
      OutcomeTokens (convertGammaMarket c gm) = []) \<and>
   (Gamma_OutcomePrices gm \<noteq> [] \<and> Unmarshal_strings c (Gamma_OutcomePrices gm) = Inr ys \<longrightarrow>
      OutcomeTokens (convertGammaMarket c gm) = ys) \<and>
   (Gamma_EndDateISO gm \<noteq> [] \<and> k < length formats \<and>
    time_Parse c (formats ! k) (Gamma_EndDateISO gm) = Inr t \<and>
    list_all (\<lambda>f. isl (time_Parse c f (Gamma_EndDateISO gm))) (take k formats) \<longrightarrow>
      EndDate (convertGammaMarket c gm) = t) \<and>
   (list_all (\<lambda>f. isl (time_Parse c f (Gamma_EndDateISO gm))) formats \<longrightarrow>
      IsZero (EndDate (convertGammaMarket c gm))) \<and>
   ID (convertGammaMarket c gm) = Gamma_ID gm \<and>
   ConditionID (convertGammaMarket c gm) = Gamma_ConditionID gm \<and>
   Question (convertGammaMarket c gm) = Gamma_Question gm \<and>
   Description (convertGammaMarket c gm) = Gamma_Description gm \<and>
   Volume (convertGammaMarket c gm) = Gamma_Volume gm \<and>
   Liquidity (convertGammaMarket c gm) = Gamma_Liquidity gm"
proof -
  have a: "isl (Unmarshal_strings c (Gamma_Outcomes gm)) \<longrightarrow> Outcomes (convertGammaMarket c gm) = []"
    by (auto simp: convert_outcomes split: sum.splits)
  have b: "Gamma_Outcomes gm \<noteq> [] \<and> Unmarshal_strings c (Gamma_Outcomes gm) = Inr xs \<longrightarrow>
      Outcomes (convertGammaMarket c gm) = xs"
    by (simp add: convert_outcomes)
  have a': "isl (Unmarshal_strings c (Gamma_OutcomePrices gm)) \<longrightarrow>
      OutcomeTokens (convertGammaMarket c gm) = []"
    by (auto simp: convert_prices split: sum.splits)
  have b': "Gamma_OutcomePrices gm \<noteq> [] \<and> Unmarshal_strings c (Gamma_OutcomePrices gm) = Inr ys \<longrightarrow>
      OutcomeTokens (convertGammaMarket c gm) = ys"
    by (simp add: convert_prices)
  have d: "Gamma_EndDateISO gm \<noteq> [] \<and> k < length formats \<and>
    time_Parse c (formats ! k) (Gamma_EndDateISO gm) = Inr t \<and>
    list_all (\<lambda>f. isl (time_Parse c f (Gamma_EndDateISO gm))) (take k formats) \<longrightarrow>
      EndDate (convertGammaMarket c gm) = t"
    using convert_endDate_first[of gm k c t] by blast
  have e: "list_all (\<lambda>f. isl (time_Parse c f (Gamma_EndDateISO gm))) formats \<longrightarrow>
      IsZero (EndDate (convertGammaMarket c gm))"
    using convert_endDate_none[of c gm] by (simp add: IsZero_def)
  show ?thesis
    using a b a' b' d e by (simp add: convert_copied formats_def RFC3339_def)
qed

theorem convertGammaMarket_degrades_per_field_witness:
  "Outcomes (convertGammaMarket catalogClient gmOdd) = [] \<and>
   OutcomeTokens (convertGammaMarket catalogClient gmOdd) = [''0.7'', ''0.3''] \<and>
   IsZero (EndDate (convertGammaMarket catalogClient gmOdd)) \<and>
   Outcomes (convertGammaMarket catalogClient gmStale) = [''Yes'', ''No''] \<and>
   EndDate (convertGammaMarket catalogClient gmStale) = t2020"
proof -
  have odd: "Gamma_Outcomes gmOdd = ''Yes,No''" "Gamma_OutcomePrices gmOdd = json_prices"
    "Gamma_EndDateISO gmOdd = ''next week''"
    by (simp_all add: gmOdd_def gamma_of_def)
  have stale: "Gamma_Outcomes gmStale = json_Yes_No" "Gamma_EndDateISO gmStale = ''2020-01-01''"
    by (simp_all add: gmStale_def gamma_of_def)
  have k: "formats ! Suc 0 = ''2006-01-02''" "take (Suc 0) formats = [RFC3339]"
    "Suc 0 < length formats"
    by (simp_all add: formats_def)
  have "Outcomes (convertGammaMarket catalogClient gmOdd) = [] \<and>
   OutcomeTokens (convertGammaMarket catalogClient gmOdd) = [''0.7'', ''0.3''] \<and>
   IsZero (EndDate (convertGammaMarket catalogClient gmOdd))"
    using convertGammaMarket_degrades_per_field[of catalogClient gmOdd "[]" "[''0.7'', ''0.3'']" 0 0]
    by (simp add: odd catalog_fields stub_facts stubParse_facts)
  moreover have "Outcomes (convertGammaMarket catalogClient gmStale) = [''Yes'', ''No''] \<and>
   EndDate (convertGammaMarket catalogClient gmStale) = t2020"
    using convertGammaMarket_degrades_per_field[of catalogClient gmStale "[''Yes'', ''No'']" "[]" "Suc 0" t2020]
    by (simp add: stale catalog_fields stub_facts stubParse_facts k)
  ultimately show ?thesis by simp
qed

text \<open>
  Claim C8.  The normalized \<open>Active\<close> flag is the upstream active flag and not the
  upstream closed flag.
\<close>

theorem convertGammaMarket_active:
  "Active (convertGammaMarket c gm) = (Gamma_Active gm \<and> \<not> Gamma_Closed gm)"
  by (rule convert_copied)

theorem convertGammaMarket_active_witness:
  "Gamma_Active gmClosed \<and> Gamma_Closed gmClosed \<and> \<not> Active (convertGammaMarket catalogClient gmClosed)"
  using convertGammaMarket_active[of catalogClient gmClosed]
  by (simp add: gmClosed_def gamma_of_def)

section \<open>Properties of the catalog paths\<close>
















section \<open>Properties of the listing handler\<close>

lemma params_limit:
  "fst (handleGetMarkets_params s query) =
     (if Get query ''limit'' = [] then 50
      else (case Atoi s (Get query ''limit'') of
              Inl err \<Rightarrow> 50
            | Inr p \<Rightarrow> if 0 < p \<and> p \<le> 100 then p else 50))"
  by (simp add: handleGetMarkets_params_def Let_def split: sum.splits)

lemma params_offset:
  "snd (handleGetMarkets_params s query) =
     (if Get query ''offset'' = [] then 0
      else (case Atoi s (Get query ''offset'') of
              Inl err \<Rightarrow> 0
            | Inr p \<Rightarrow> if 0 \<le> p then p else 0))"
  by (simp add: handleGetMarkets_params_def Let_def split: sum.splits)

text \<open>
  Claim C9.  In \<open>handleGetMarkets\<close> the limit is 50 when the parameter is missing or
  empty, when \<open>Atoi\<close> rejects it, and when the number is 0, negative or above 100; a
  number in (0, 100] is taken as it is.  The offset is 0 when the parameter is missing or
  empty, when \<open>Atoi\<close> rejects it, and when the number is negative; a number of at least 0
  is taken as it is.  So the limit passed to \<open>FetchMarkets\<close> is always in (0, 100] and the
  offset at least 0.
\<close>

theorem handleGetMarkets_limit_offset:
  "(query ''limit'' = [] \<or> Get query ''limit'' = [] \<or> isl (Atoi s (Get query ''limit'')) \<longrightarrow>
      fst (handleGetMarkets_params s query) = 50) \<and>
   (Atoi s (Get query ''limit'') = Inr p \<and> (p \<le> 0 \<or> 100 < p) \<longrightarrow>
      fst (handleGetMarkets_params s query) = 50) \<and>
   (Get query ''limit'' \<noteq> [] \<and> Atoi s (Get query ''limit'') = Inr p \<and> 0 < p \<and> p \<le> 100 \<longrightarrow>
      fst (handleGetMarkets_params s query) = p) \<and>
   (query ''offset'' = [] \<or> Get query ''offset'' = [] \<or> isl (Atoi s (Get query ''offset'')) \<longrightarrow>
      snd (handleGetMarkets_params s query) = 0) \<and>
   (Atoi s (Get query ''offset'') = Inr q \<and> q < 0 \<longrightarrow>
      snd (handleGetMarkets_params s query) = 0) \<and>
   (Get query ''offset'' \<noteq> [] \<and> Atoi s (Get query ''offset'') = Inr q \<and> 0 \<le> q \<longrightarrow>
      snd (handleGetMarkets_params s query) = q) \<and>
   0 < fst (handleGetMarkets_params s query) \<and> fst (handleGetMarkets_params s query) \<le> 100 \<and>
   0 \<le> snd (handleGetMarkets_params s query) \<and>
   handleGetMarkets s now query =
     (case FetchMarkets (gammaClient s) now (fst (handleGetMarkets_params s query))
             (snd (handleGetMarkets_params s query)) of
        Inl err \<Rightarrow> (500, Inl err)
      | Inr markets \<Rightarrow> (200, Inr markets))"
proof -
  have g: "query k = [] \<Longrightarrow> Get query k = []" for k
    by (simp add: Get_def)
  have l: "(query ''limit'' = [] \<or> Get query ''limit'' = [] \<or> isl (Atoi s (Get query ''limit'')) \<longrightarrow>
      fst (handleGetMarkets_params s query) = 50) \<and>
   (Atoi s (Get query ''limit'') = Inr p \<and> (p \<le> 0 \<or> 100 < p) \<longrightarrow>
      fst (handleGetMarkets_params s query) = 50) \<and>
   (Get query ''limit'' \<noteq> [] \<and> Atoi s (Get query ''limit'') = Inr p \<and> 0 < p \<and> p \<le> 100 \<longrightarrow>
      fst (handleGetMarkets_params s query) = p) \<and>
   0 < fst (handleGetMarkets_params s query) \<and> fst (handleGetMarkets_params s query) \<le> 100"
    unfolding params_limit using g[of "''limit''"] by (auto split: sum.splits)
  have o: "(query ''offset'' = [] \<or> Get query ''offset'' = [] \<or> isl (Atoi s (Get query ''offset'')) \<longrightarrow>
      snd (handleGetMarkets_params s query) = 0) \<and>
   (Atoi s (Get query ''offset'') = Inr q \<and> q < 0 \<longrightarrow>
      snd (handleGetMarkets_params s query) = 0) \<and>
   (Get query ''offset'' \<noteq> [] \<and> Atoi s (Get query ''offset'') = Inr q \<and> 0 \<le> q \<longrightarrow>
      snd (handleGetMarkets_params s query) = q) \<and>
   0 \<le> snd (handleGetMarkets_params s query)"
    unfolding params_offset using g[of "''offset''"] by (auto split: sum.splits)
  have h: "handleGetMarkets s now query =
     (case FetchMarkets (gammaClient s) now (fst (handleGetMarkets_params s query))
             (snd (handleGetMarkets_params s query)) of
        Inl err \<Rightarrow> (500, Inl err)
      | Inr markets \<Rightarrow> (200, Inr markets))"
    by (simp add: handleGetMarkets_def split_beta)
  show ?thesis using l o h by blast
qed

lemma Atoi_examples:
  "strconv_Atoi ''25'' = Inr 25" "strconv_Atoi ''10'' = Inr 10" "strconv_Atoi ''0'' = Inr 0"
  "strconv_Atoi ''-1'' = Inr (- 1)" "strconv_Atoi ''101'' = Inr 101"
  "strconv_Atoi ''abc'' = Inl (Failure ''invalid syntax'')"
  by (simp_all add: strconv_Atoi_def digit_of_def)

lemma Get_values_of:
  "Get (values_of l ov) ''limit'' = l" "Get (values_of l ov) ''offset'' = ov"
  by (simp_all add: Get_def values_of_def)

theorem handleGetMarkets_limit_offset_witness:
  "handleGetMarkets_params server (values_of ''25'' ''10'') = (25, 10) \<and>
   handleGetMarkets_params server (values_of ''0'' ''-1'') = (50, 0) \<and>
   handleGetMarkets_params server (values_of ''101'' ''abc'') = (50, 0) \<and>
   handleGetMarkets_params server (values_of [] []) = (50, 0)"
proof -
  have a: "Atoi server = strconv_Atoi" by (simp add: server_def)
  have "handleGetMarkets_params server (values_of ''25'' ''10'') = (25, 10)"
    using handleGetMarkets_limit_offset[of "values_of ''25'' ''10''" server 25 10]
    by (simp add: a Get_values_of Atoi_examples prod_eq_iff)
  moreover have "handleGetMarkets_params server (values_of ''0'' ''-1'') = (50, 0)"
    using handleGetMarkets_limit_offset[of "values_of ''0'' ''-1''" server 0 "- 1"]
    by (simp add: a Get_values_of Atoi_examples prod_eq_iff)
  moreover have "handleGetMarkets_params server (values_of ''101'' ''abc'') = (50, 0)"
    using handleGetMarkets_limit_offset[of "values_of ''101'' ''abc''" server 101 0]
    by (simp add: a Get_values_of Atoi_examples prod_eq_iff)
  moreover have "handleGetMarkets_params server (values_of [] []) = (50, 0)"
    using handleGetMarkets_limit_offset[of "values_of [] []" server 0 0]
    by (simp add: a Get_values_of prod_eq_iff)
  ultimately show ?thesis by simp
qed

end
